theory Spec2Isabelle
  imports Main "HOL-Library.Word" "HOL-Library.Sublist"
begin

section \<open>JavaScript values\<close>

text \<open>
  A JavaScript string is a sequence of 16-bit code units, a \<open>Uint8Array\<close> a sequence of
  bytes. \<open>String.fromCharCode(...bytes)\<close> widens every byte to a code unit;
  \<open>Uint8Array.from(s, c => c.charCodeAt(0))\<close> and the loop
  \<open>bytes[i] = s.charCodeAt(i)\<close> store every code unit modulo 256.
\<close>

type_synonym byte = "8 word"
type_synonym bytes = "byte list"
type_synonym code_unit = "16 word"
type_synonym jsstring = "code_unit list"

definition js :: "string \<Rightarrow> jsstring" where
  "js s = map (\<lambda>c. of_nat (of_char c)) s"

definition fromCharCode :: "bytes \<Rightarrow> jsstring" where
  "fromCharCode bs = map ucast bs"

definition charCodes :: "jsstring \<Rightarrow> bytes" where
  "charCodes s = map ucast s"

text \<open>
  What a \<open>throw\<close> carries: the DOMException kinds of \<open>atob\<close>, \<open>btoa\<close> and
  \<open>crypto.subtle\<close>, the built-in errors, a failed HTTP request, and
  \<open>new Error(message)\<close>.
\<close>

datatype js_error =
    InvalidCharacterError
  | DataError
  | OperationError
  | SyntaxError
  | TypeError
  | RangeError
  | NetworkError
  | Error jsstring

text \<open>
  \<open>try { body } catch (error) { console.error(...); throw new Error(msg) }\<close>:
  whatever the body throws is replaced by \<open>Error msg\<close>.
\<close>

definition catch_rethrow :: "jsstring \<Rightarrow> js_error + 'a \<Rightarrow> js_error + 'a" where
  "catch_rethrow msg r = (case r of Inl e \<Rightarrow> Inl (Error msg) | Inr v \<Rightarrow> Inr v)"

subsection \<open>\<open>String.prototype.trim\<close>, \<open>replace\<close> and the class \<open>\s\<close>\<close>

text \<open>
  The code units ECMAScript counts as white space or line terminator: what \<open>trim\<close>
  removes at both ends and what the regular expression \<open>/\s/g\<close> matches.
\<close>

definition is_js_whitespace :: "code_unit \<Rightarrow> bool" where
  "is_js_whitespace c =
     (let u = unat c
      in u \<in> {9, 10, 11, 12, 13, 32, 160, 5760, 8232, 8233, 8239, 8287, 12288, 65279}
         \<or> (8192 \<le> u \<and> u \<le> 8202))"

definition trim :: "jsstring \<Rightarrow> jsstring" where
  "trim s = rev (dropWhile is_js_whitespace (rev (dropWhile is_js_whitespace s)))"

text \<open>\<open>s.replace(/\s/g, "")\<close>\<close>

definition remove_whitespace :: "jsstring \<Rightarrow> jsstring" where
  "remove_whitespace s = filter (\<lambda>c. \<not> is_js_whitespace c) s"

text \<open>\<open>s.replace(pat, "")\<close> with a string pattern: the first occurrence only.\<close>

fun remove_first :: "jsstring \<Rightarrow> jsstring \<Rightarrow> jsstring" where
  "remove_first pat [] = []"
| "remove_first pat (c # cs) =
     (if prefix pat (c # cs) then drop (length pat) (c # cs) else c # remove_first pat cs)"

subsection \<open>\<open>TextEncoder.encode\<close>\<close>

text \<open>
  UTF-8 of a string of UTF-16 code units; a surrogate pair is one code point of four
  bytes, a lone surrogate is encoded as U+FFFD.
\<close>

fun utf8_encode :: "jsstring \<Rightarrow> bytes" where
  "utf8_encode [] = []"
| "utf8_encode [c] =
     (let u = unat c
      in if u < 128 then [of_nat u]
         else if u < 2048 then [of_nat (192 + u div 64), of_nat (128 + u mod 64)]
         else if 55296 \<le> u \<and> u < 57344 then [239, 191, 189]
         else [of_nat (224 + u div 4096), of_nat (128 + u div 64 mod 64), of_nat (128 + u mod 64)])"
| "utf8_encode (c # d # cs) =
     (let u = unat c; v = unat d
      in if u < 128 then of_nat u # utf8_encode (d # cs)
         else if u < 2048
           then of_nat (192 + u div 64) # of_nat (128 + u mod 64) # utf8_encode (d # cs)
         else if 55296 \<le> u \<and> u < 56320 \<and> 56320 \<le> v \<and> v < 57344
           then (let p = 65536 + (u - 55296) * 1024 + (v - 56320)
                 in of_nat (240 + p div 262144) # of_nat (128 + p div 4096 mod 64)
                    # of_nat (128 + p div 64 mod 64) # of_nat (128 + p mod 64) # utf8_encode cs)
         else if 55296 \<le> u \<and> u < 57344 then 239 # 191 # 189 # utf8_encode (d # cs)
         else of_nat (224 + u div 4096) # of_nat (128 + u div 64 mod 64)
              # of_nat (128 + u mod 64) # utf8_encode (d # cs))"

subsection \<open>\<open>btoa\<close> and \<open>atob\<close>\<close>

text \<open>
  Base64 with the standard alphabet. \<open>btoa\<close> throws on a code unit above 255 and pads
  with \<open>=\<close>; \<open>atob\<close> is the forgiving decoder of the HTML standard: it drops ASCII white
  space, drops one or two trailing \<open>=\<close> when the length is a multiple of four, refuses a
  length that is 1 modulo 4 and any code unit outside the alphabet, and discards the
  spare bits of a final group of two or three characters.
\<close>

definition b64_char :: "nat \<Rightarrow> code_unit" where
  "b64_char n = of_nat (if n < 26 then n + 65 else if n < 52 then n + 71
                        else if n < 62 then n - 4 else if n = 62 then 43 else 47)"

definition b64_value :: "code_unit \<Rightarrow> nat option" where
  "b64_value c =
     (let u = unat c
      in if 65 \<le> u \<and> u \<le> 90 then Some (u - 65)
         else if 97 \<le> u \<and> u \<le> 122 then Some (u - 71)
         else if 48 \<le> u \<and> u \<le> 57 then Some (u + 4)
         else if u = 43 then Some 62
         else if u = 47 then Some 63
         else None)"

fun encode_sextets :: "bytes \<Rightarrow> nat list" where
  "encode_sextets (a # b # c # rest) =
     (let n = unat a * 65536 + unat b * 256 + unat c
      in [n div 262144, n div 4096 mod 64, n div 64 mod 64, n mod 64] @ encode_sextets rest)"
| "encode_sextets [a, b] =
     (let n = unat a * 65536 + unat b * 256
      in [n div 262144, n div 4096 mod 64, n div 64 mod 64])"
| "encode_sextets [a] =
     (let n = unat a * 65536 in [n div 262144, n div 4096 mod 64])"
| "encode_sextets [] = []"

definition base64_encode :: "bytes \<Rightarrow> jsstring" where
  "base64_encode bs =
     map b64_char (encode_sextets bs) @ replicate ((3 - length bs mod 3) mod 3) 61"

definition btoa :: "jsstring \<Rightarrow> jsstring option" where
  "btoa s = (if list_all (\<lambda>c. unat c \<le> 255) s then Some (base64_encode (charCodes s))
             else None)"

definition is_ascii_whitespace :: "code_unit \<Rightarrow> bool" where
  "is_ascii_whitespace c = (unat c \<in> {9, 10, 12, 13, 32})"

definition remove_padding :: "jsstring \<Rightarrow> jsstring" where
  "remove_padding d =
     (if length d mod 4 = 0 \<and> d \<noteq> [] \<and> last d = 61
      then (if butlast d \<noteq> [] \<and> last (butlast d) = 61 then butlast (butlast d)
            else butlast d)
      else d)"

fun decode_sextets :: "nat list \<Rightarrow> bytes" where
  "decode_sextets (p # q # r # s # rest) =
     (let n = p * 262144 + q * 4096 + r * 64 + s
      in [of_nat (n div 65536), of_nat (n div 256 mod 256), of_nat (n mod 256)]
         @ decode_sextets rest)"
| "decode_sextets [p, q, r] =
     (let n = (p * 4096 + q * 64 + r) div 4 in [of_nat (n div 256), of_nat (n mod 256)])"
| "decode_sextets [p, q] = [of_nat ((p * 64 + q) div 16)]"
| "decode_sextets [p] = []"
| "decode_sextets [] = []"

definition base64_decode :: "jsstring \<Rightarrow> bytes option" where
  "base64_decode data =
     (let d = remove_padding (filter (\<lambda>c. \<not> is_ascii_whitespace c) data)
      in if length d mod 4 = 1 then None
         else (case those (map b64_value d) of
                 None \<Rightarrow> None
               | Some vs \<Rightarrow> Some (decode_sextets vs)))"

definition atob :: "jsstring \<Rightarrow> jsstring option" where
  "atob data = map_option fromCharCode (base64_decode data)"

section \<open>The platform the code calls\<close>

text \<open>
  \<open>JSON\<close>, \<open>TextDecoder\<close> and \<open>crypto.subtle\<close> belong to the browser, not to the
  repository: they are parameters of the model. \<open>'j\<close> is the type of payload values,
  \<open>'pk\<close> that of an imported RSA public key (a \<open>CryptoKey\<close>). An AES \<open>CryptoKey\<close> is its
  raw key bytes. \<open>argument_limit\<close> is the largest number of arguments the engine
  takes in one call.

  \<^item> \<open>JSON_stringify\<close> throws, returns \<open>undefined\<close> or returns text;
  \<^item> \<open>JSON_parse\<close> is \<open>None\<close> where \<open>JSON.parse\<close> throws a \<open>SyntaxError\<close>;
  \<^item> \<open>AES_GCM_encrypt key iv tagLength data\<close> is ciphertext followed by tag;
  \<^item> \<open>AES_GCM_decrypt key iv tagLength data\<close> is \<open>None\<close> where \<open>decrypt\<close> throws an
    \<open>OperationError\<close>: the tag does not verify;
  \<^item> \<open>importKey_spki hash der\<close> is \<open>None\<close> where \<open>importKey('spki', ...)\<close> throws;
  \<^item> \<open>RSA_OAEP_encrypt key seed data\<close> is \<open>None\<close> where \<open>encrypt\<close> throws.
\<close>

datatype stringified = JsonThrows | JsonUndefined | JsonText jsstring

datatype hash_alg = SHA_1 | SHA_256 | SHA_384 | SHA_512

record ('j, 'pk) platform =
  JSON_stringify :: "'j \<Rightarrow> stringified"
  JSON_parse :: "jsstring \<Rightarrow> 'j option"
  TextDecoder_decode :: "bytes \<Rightarrow> jsstring"
  AES_GCM_encrypt :: "bytes \<Rightarrow> bytes \<Rightarrow> nat \<Rightarrow> bytes \<Rightarrow> bytes"
  AES_GCM_decrypt :: "bytes \<Rightarrow> bytes \<Rightarrow> nat \<Rightarrow> bytes \<Rightarrow> bytes option"
  importKey_spki :: "hash_alg \<Rightarrow> bytes \<Rightarrow> 'pk option"
  RSA_OAEP_encrypt :: "'pk \<Rightarrow> bytes \<Rightarrow> bytes \<Rightarrow> bytes option"
  argument_limit :: nat

text \<open>
  \<open>btoa(String.fromCharCode(...bytes))\<close>: the spread passes one argument per byte, and
  the call throws a \<open>RangeError\<close> when they are more than the engine takes.
\<close>

definition fromCharCode_spread :: "('j, 'pk) platform \<Rightarrow> bytes \<Rightarrow> js_error + jsstring" where
  "fromCharCode_spread P bs =
     (if length bs \<le> argument_limit P then Inr (fromCharCode bs) else Inl RangeError)"

definition btoa_bytes :: "('j, 'pk) platform \<Rightarrow> bytes \<Rightarrow> js_error + jsstring" where
  "btoa_bytes P bs =
     (case fromCharCode_spread P bs of
        Inl e \<Rightarrow> Inl e
      | Inr s \<Rightarrow> (case btoa s of None \<Rightarrow> Inl InvalidCharacterError | Some b \<Rightarrow> Inr b))"

text \<open>
  What the browser draws at random is read from a source of bytes, an argument of the
  function that draws: \<open>crypto.getRandomValues(new Uint8Array(n))\<close> fills the \<open>n\<close>
  bytes of the array it is given; \<open>crypto.subtle.generateKey\<close> for AES throws an
  \<open>OperationError\<close> unless the length asked for is 128, 192 or 256 bits, and draws
  a key of that many bits, which \<open>exportKey('raw', key)\<close> returns as it is. The seed
  of RSA-OAEP is handed to \<open>RSA_OAEP_encrypt\<close> as it is.
\<close>

type_synonym entropy = "nat \<Rightarrow> byte"

definition getRandomValues :: "entropy \<Rightarrow> nat \<Rightarrow> bytes" where
  "getRandomValues r n = map r [0..<n]"

definition generateKey :: "entropy \<Rightarrow> nat \<Rightarrow> js_error + bytes" where
  "generateKey r bits =
     (if bits \<in> {128, 192, 256} then Inr (map r [0..<bits div 8]) else Inl OperationError)"

section \<open>\<open>encryptionUtil.ts\<close>\<close>

text \<open>\<open>ENCRYPTION_CONFIG\<close>: \<open>ivLength\<close> is in bytes, \<open>keyLength\<close> and \<open>tagLength\<close> in bits.\<close>

definition keyLength :: nat where "keyLength = 256"
definition ivLength :: nat where "ivLength = 12"
definition tagLength :: nat where "tagLength = 128"

text \<open>\<open>generateEncryptionKey\<close>; \<open>keyRand\<close> is what the key is drawn from.\<close>

definition generateEncryptionKey :: "('j, 'pk) platform \<Rightarrow> entropy \<Rightarrow> js_error + jsstring" where
  "generateEncryptionKey P keyRand =
     (case generateKey keyRand keyLength of
        Inl e \<Rightarrow> Inl e
      | Inr exportedKey \<Rightarrow> btoa_bytes P exportedKey)"

text \<open>
  \<open>importKey\<close>: \<open>atob\<close> throws on malformed base64, and
  \<open>crypto.subtle.importKey('raw', keyData, 'AES-GCM', ...)\<close> throws a \<open>DataError\<close>
  unless the key data is 128, 192 or 256 bits long.
\<close>

definition importKey :: "jsstring \<Rightarrow> js_error + bytes" where
  "importKey base64Key =
     (case atob base64Key of
        None \<Rightarrow> Inl InvalidCharacterError
      | Some s \<Rightarrow>
          (let keyData = charCodes s
           in if length keyData \<in> {16, 24, 32} then Inr keyData else Inl DataError))"

record encrypted_payload =
  encryptedData :: jsstring
  encryptionKey :: jsstring

text \<open>
  The body of \<open>encryptPayload\<close>'s \<open>try\<close>. \<open>base64Key\<close> is \<open>None\<close> when the argument is
  left out; \<open>base64Key || ...\<close> also takes the right-hand side for the empty string.
  \<open>keyRand\<close> is what \<open>generateEncryptionKey\<close> draws the key from, \<open>ivRand\<close> what
  \<open>crypto.getRandomValues\<close> fills the IV from.
\<close>

definition encryptPayload_try ::
  "('j, 'pk) platform \<Rightarrow> 'j \<Rightarrow> jsstring option \<Rightarrow> entropy \<Rightarrow> entropy \<Rightarrow>
   js_error + encrypted_payload"
where
  "encryptPayload_try P payload base64Key keyRand ivRand =
     (case (case base64Key of
              None \<Rightarrow> generateEncryptionKey P keyRand
            | Some k \<Rightarrow> if k = [] then generateEncryptionKey P keyRand else Inr k) of
        Inl e \<Rightarrow> Inl e
      | Inr keyToUse \<Rightarrow>
          (case importKey keyToUse of
             Inl e \<Rightarrow> Inl e
           | Inr key \<Rightarrow>
               (case JSON_stringify P payload of
                  JsonThrows \<Rightarrow> Inl TypeError
                | jsonString \<Rightarrow>
                    (let data = utf8_encode (case jsonString of JsonText t \<Rightarrow> t | _ \<Rightarrow> []);
                         iv = getRandomValues ivRand ivLength;
                         encryptedBuffer = AES_GCM_encrypt P key iv tagLength data;
                         combined = iv @ encryptedBuffer
                     in case btoa_bytes P combined of
                          Inl e \<Rightarrow> Inl e
                        | Inr encryptedBase64 \<Rightarrow>
                            Inr \<lparr>encryptedData = encryptedBase64, encryptionKey = keyToUse\<rparr>))))"

definition encryptPayload ::
  "('j, 'pk) platform \<Rightarrow> 'j \<Rightarrow> jsstring option \<Rightarrow> entropy \<Rightarrow> entropy \<Rightarrow>
   js_error + encrypted_payload"
where
  "encryptPayload P payload base64Key keyRand ivRand =
     catch_rethrow (js ''Failed to encrypt payload'')
       (encryptPayload_try P payload base64Key keyRand ivRand)"

text \<open>
  The array \<open>combined\<close> that \<open>encryptPayload\<close> builds and encodes, for a key and the
  bytes of the JSON text: the IV followed by what AES-GCM returned.
\<close>

definition combined_bytes :: "('j, 'pk) platform \<Rightarrow> bytes \<Rightarrow> entropy \<Rightarrow> bytes \<Rightarrow> bytes" where
  "combined_bytes P key ivRand data =
     getRandomValues ivRand ivLength
       @ AES_GCM_encrypt P key (getRandomValues ivRand ivLength) tagLength data"

text \<open>The body of \<open>decryptPayload\<close>'s \<open>try\<close>, and \<open>decryptPayload\<close>.\<close>

definition decryptPayload_try ::
  "('j, 'pk) platform \<Rightarrow> jsstring \<Rightarrow> jsstring \<Rightarrow> js_error + 'j"
where
  "decryptPayload_try P encryptedBase64 base64Key =
     (case importKey base64Key of
        Inl e \<Rightarrow> Inl e
      | Inr key \<Rightarrow>
          (case atob encryptedBase64 of
             None \<Rightarrow> Inl InvalidCharacterError
           | Some s \<Rightarrow>
               (let combined = charCodes s;
                    iv = take ivLength combined;
                    encryptedData = drop ivLength combined
                in case AES_GCM_decrypt P key iv tagLength encryptedData of
                     None \<Rightarrow> Inl OperationError
                   | Some decryptedBuffer \<Rightarrow>
                       (let jsonString = TextDecoder_decode P decryptedBuffer
                        in case JSON_parse P jsonString of
                             None \<Rightarrow> Inl SyntaxError
                           | Some v \<Rightarrow> Inr v))))"

definition decryptPayload ::
  "('j, 'pk) platform \<Rightarrow> jsstring \<Rightarrow> jsstring \<Rightarrow> js_error + 'j"
where
  "decryptPayload P encryptedBase64 base64Key =
     catch_rethrow (js ''Failed to decrypt payload'')
       (decryptPayload_try P encryptedBase64 base64Key)"

section \<open>\<open>rsaEncryptionUtil.ts\<close>\<close>

definition pemHeader :: jsstring where
  "pemHeader = js ''-----BEGIN PUBLIC KEY-----''"

definition pemFooter :: jsstring where
  "pemFooter = js ''-----END PUBLIC KEY-----''"

text \<open>The body of \<open>importPublicKey\<close>'s \<open>try\<close>, and \<open>importPublicKey\<close>.\<close>

definition importPublicKey_try :: "('j, 'pk) platform \<Rightarrow> jsstring \<Rightarrow> js_error + 'pk" where
  "importPublicKey_try P base64PublicKey =
     (let pemContents =
            remove_whitespace (remove_first pemFooter (remove_first pemHeader base64PublicKey))
      in case atob pemContents of
           None \<Rightarrow> Inl InvalidCharacterError
         | Some binaryDer \<Rightarrow>
             (case importKey_spki P SHA_256 (charCodes binaryDer) of
                None \<Rightarrow> Inl DataError
              | Some k \<Rightarrow> Inr k))"

definition importPublicKey :: "('j, 'pk) platform \<Rightarrow> jsstring \<Rightarrow> js_error + 'pk" where
  "importPublicKey P base64PublicKey =
     catch_rethrow (js ''Failed to import RSA public key'')
       (importPublicKey_try P base64PublicKey)"

text \<open>\<open>encryptWithPublicKey\<close>: \<open>data\<close> is a \<open>Uint8Array\<close>.\<close>

definition encryptWithPublicKey ::
  "('j, 'pk) platform \<Rightarrow> bytes \<Rightarrow> jsstring \<Rightarrow> bytes \<Rightarrow> js_error + jsstring"
where
  "encryptWithPublicKey P data base64PublicKey seed =
     catch_rethrow (js ''Failed to encrypt with RSA public key'')
       (case importPublicKey P base64PublicKey of
          Inl e \<Rightarrow> Inl e
        | Inr publicKey \<Rightarrow>
            (case RSA_OAEP_encrypt P publicKey seed data of
               None \<Rightarrow> Inl OperationError
             | Some encryptedBuffer \<Rightarrow> btoa_bytes P encryptedBuffer))"

text \<open>\<open>encryptAESKey\<close>: the key is decoded from base64 to bytes before it is encrypted.\<close>

definition encryptAESKey ::
  "('j, 'pk) platform \<Rightarrow> jsstring \<Rightarrow> jsstring \<Rightarrow> bytes \<Rightarrow> js_error + jsstring"
where
  "encryptAESKey P base64AESKey base64PublicKey seed =
     catch_rethrow (js ''Failed to encrypt AES key with RSA'')
       (case atob base64AESKey of
          None \<Rightarrow> Inl InvalidCharacterError
        | Some s \<Rightarrow> encryptWithPublicKey P (charCodes s) base64PublicKey seed)"

section \<open>\<open>encryptionService.ts\<close>\<close>

text \<open>\<open>RSA_CONFIG.hash\<close>, the hash \<open>importKey\<close> binds to the RSA-OAEP key.\<close>

definition RSA_CONFIG_hash :: hash_alg where
  "RSA_CONFIG_hash = SHA_256"

record PublicKeyData =
  pkd_sessionId :: jsstring
  pkd_publicKey :: jsstring
  pkd_expiryTime :: jsstring
  pkd_ttlSeconds :: int

record EncryptedRequest =
  req_sessionId :: jsstring
  req_encryptedData :: jsstring
  req_encryptedKey :: jsstring
  req_payloadType :: "jsstring option"

record EncryptedResponse =
  resp_sessionId :: jsstring
  resp_encryptedData :: jsstring
  resp_encryptedKey :: jsstring

record SessionInfo =
  sess_sessionId :: jsstring
  sess_publicKey :: jsstring
  sess_expiryTime :: jsstring

text \<open>
  The module's two variables: \<open>currentSession\<close> and \<open>aesKeyStore\<close>, an object literal
  \<open>{}\<close> used as a table from session id to base64 key. The field \<open>aesKeyStore\<close> holds
  the object's own properties.
\<close>

record module_state =
  currentSession :: "SessionInfo option"
  aesKeyStore :: "jsstring \<rightharpoonup> jsstring"

text \<open>
  The object inherits from \<open>Object.prototype\<close>, so \<open>aesKeyStore[name]\<close> reads an own
  property when there is one, a member of \<open>Object.prototype\<close> when \<open>name\<close> is one
  of its names, and \<open>undefined\<close> otherwise. The inherited members are functions
  named as the property, but for \<open>constructor\<close>, which is the function \<open>Object\<close>, and
  \<open>__proto__\<close>, which reads as \<open>Object.prototype\<close> itself. \<open>Inherited\<close> carries the
  text that \<open>String\<close> gives for the member: \<open>[object Object]\<close> for the object, the
  source text of a built-in function, with \<open>[native code]\<close> for its body, for a
  function.
\<close>

datatype property = Undefined | OwnValue jsstring | Inherited jsstring

definition object_prototype_names :: "jsstring list" where
  "object_prototype_names =
     [js ''constructor'', js ''__defineGetter__'', js ''__defineSetter__'',
      js ''hasOwnProperty'', js ''__lookupGetter__'', js ''__lookupSetter__'',
      js ''isPrototypeOf'', js ''propertyIsEnumerable'', js ''toString'', js ''valueOf'',
      js ''__proto__'', js ''toLocaleString'']"

definition inherited_text :: "jsstring \<Rightarrow> jsstring" where
  "inherited_text name =
     (if name = js ''__proto__'' then js ''[object Object]''
      else js ''function ''
             @ (if name = js ''constructor'' then js ''Object'' else name)
             @ js ''() { [native code] }'')"

definition get_property :: "(jsstring \<rightharpoonup> jsstring) \<Rightarrow> jsstring \<Rightarrow> property" where
  "get_property obj name =
     (case obj name of
        Some v \<Rightarrow> OwnValue v
      | None \<Rightarrow>
          if name \<in> set object_prototype_names then Inherited (inherited_text name)
          else Undefined)"

text \<open>
  \<open>aesKeyStore[name] = v\<close> with a string \<open>v\<close>: the inherited members are writable, so
  the assignment makes or updates an own property, but for \<open>__proto__\<close>, whose
  inherited setter ignores a value that is neither an object nor \<open>null\<close>.
  \<open>delete aesKeyStore[name]\<close> removes the own property, if there is one: it is
  \<open>obj(name := None)\<close>.
\<close>

definition set_property ::
  "(jsstring \<rightharpoonup> jsstring) \<Rightarrow> jsstring \<Rightarrow> jsstring \<Rightarrow> (jsstring \<rightharpoonup> jsstring)"
where
  "set_property obj name v =
     (if name = js ''__proto__'' \<and> obj name = None then obj else obj(name \<mapsto> v))"

text \<open>\<open>!v\<close> is false for \<open>truthy v\<close>; \<open>ToString v\<close> is the string \<open>atob(v)\<close> decodes.\<close>

fun truthy :: "property \<Rightarrow> bool" where
  "truthy Undefined = False"
| "truthy (OwnValue s) = (s \<noteq> [])"
| "truthy (Inherited t) = True"

fun ToString :: "property \<Rightarrow> jsstring" where
  "ToString Undefined = js ''undefined''"
| "ToString (OwnValue s) = s"
| "ToString (Inherited t) = t"

text \<open>The body of \<open>importRSAPublicKeyFromBase64\<close>'s \<open>try\<close>, and the function.\<close>

definition importRSAPublicKeyFromBase64_try ::
  "('j, 'pk) platform \<Rightarrow> jsstring \<Rightarrow> js_error + 'pk"
where
  "importRSAPublicKeyFromBase64_try P base64Key =
     (if base64Key = [] \<or> length (trim base64Key) = 0
      then Inl (Error (js ''Public key is empty or invalid''))
      else (let cleanedKey = trim base64Key
            in case atob cleanedKey of
                 None \<Rightarrow> Inl (Error (js ''Invalid base64 encoding in public key''))
               | Some binaryString \<Rightarrow>
                   (case importKey_spki P RSA_CONFIG_hash (charCodes binaryString) of
                      None \<Rightarrow> Inl DataError
                    | Some k \<Rightarrow> Inr k)))"

definition importRSAPublicKeyFromBase64 ::
  "('j, 'pk) platform \<Rightarrow> jsstring \<Rightarrow> js_error + 'pk"
where
  "importRSAPublicKeyFromBase64 P base64Key =
     catch_rethrow (js ''Failed to import RSA public key'')
       (importRSAPublicKeyFromBase64_try P base64Key)"

text \<open>\<open>encryptWithRSA\<close>: \<open>data\<close> is a string, encoded with \<open>TextEncoder\<close>.\<close>

definition encryptWithRSA ::
  "('j, 'pk) platform \<Rightarrow> jsstring \<Rightarrow> 'pk \<Rightarrow> bytes \<Rightarrow> js_error + jsstring"
where
  "encryptWithRSA P data publicKey seed =
     catch_rethrow (js ''Failed to encrypt with RSA'')
       (let dataBuffer = utf8_encode data
        in case RSA_OAEP_encrypt P publicKey seed dataBuffer of
             None \<Rightarrow> Inl OperationError
           | Some encryptedBuffer \<Rightarrow> btoa_bytes P encryptedBuffer)"

text \<open>
  \<open>getPublicKey\<close>. The reply of the key endpoint is \<open>None\<close> when \<open>axios.get\<close> throws,
  \<open>Some None\<close> when \<open>response.data.data\<close> is missing, and the data otherwise; a missing
  string field is the empty string (both are falsy).
\<close>

definition getPublicKey_try ::
  "PublicKeyData option option \<Rightarrow> module_state \<Rightarrow> (js_error + SessionInfo) \<times> module_state"
where
  "getPublicKey_try reply st =
     (case reply of
        None \<Rightarrow> (Inl NetworkError, st)
      | Some None \<Rightarrow> (Inl (Error (js ''Invalid public key response from server'')), st)
      | Some (Some d) \<Rightarrow>
          if pkd_sessionId d = [] \<or> pkd_publicKey d = []
          then (Inl (Error (js ''Invalid public key response from server'')), st)
          else (let session = \<lparr>sess_sessionId = pkd_sessionId d,
                                sess_publicKey = pkd_publicKey d,
                                sess_expiryTime = pkd_expiryTime d\<rparr>
                in (Inr session, st\<lparr>currentSession := Some session\<rparr>)))"

definition getPublicKey ::
  "PublicKeyData option option \<Rightarrow> module_state \<Rightarrow> (js_error + SessionInfo) \<times> module_state"
where
  "getPublicKey reply st =
     apfst (catch_rethrow (js ''Failed to establish secure session''))
       (getPublicKey_try reply st)"

text \<open>
  The body of \<open>encryptRequest\<close>'s \<open>try\<close>, with the state it leaves. \<open>keyRand\<close> and
  \<open>ivRand\<close> are what the key and the IV are drawn from, \<open>seed\<close> is RSA-OAEP's seed.
\<close>

definition encryptRequest_try ::
  "('j, 'pk) platform \<Rightarrow> 'j \<Rightarrow> jsstring option \<Rightarrow> PublicKeyData option option \<Rightarrow>
   entropy \<Rightarrow> entropy \<Rightarrow> bytes \<Rightarrow> module_state \<Rightarrow> (js_error + EncryptedRequest) \<times> module_state"
where
  "encryptRequest_try P payload payloadType reply keyRand ivRand seed st =
     (case getPublicKey reply st of
        (Inl e, st1) \<Rightarrow> (Inl e, st1)
      | (Inr session, st1) \<Rightarrow>
          if sess_publicKey session = [] then (Inl (Error (js ''Failed to establish session'')), st1)
          else
            (case generateEncryptionKey P keyRand of
               Inl e \<Rightarrow> (Inl e, st1)
             | Inr aesKey \<Rightarrow>
                 (let st2 = st1\<lparr>aesKeyStore :=
                              set_property (aesKeyStore st1) (sess_sessionId session) aesKey\<rparr>
                  in case encryptPayload P payload (Some aesKey) keyRand ivRand of
                       Inl e \<Rightarrow> (Inl e, st2)
                     | Inr enc \<Rightarrow>
                         (case importRSAPublicKeyFromBase64 P (sess_publicKey session) of
                            Inl e \<Rightarrow> (Inl e, st2)
                          | Inr rsaPublicKey \<Rightarrow>
                              (case encryptWithRSA P aesKey rsaPublicKey seed of
                                 Inl e \<Rightarrow> (Inl e, st2)
                               | Inr encryptedKey \<Rightarrow>
                                   (Inr \<lparr>req_sessionId = sess_sessionId session,
                                         req_encryptedData = encryptedData enc,
                                         req_encryptedKey = encryptedKey,
                                         req_payloadType = payloadType\<rparr>, st2))))))"

definition encryptRequest ::
  "('j, 'pk) platform \<Rightarrow> 'j \<Rightarrow> jsstring option \<Rightarrow> PublicKeyData option option \<Rightarrow>
   entropy \<Rightarrow> entropy \<Rightarrow> bytes \<Rightarrow> module_state \<Rightarrow> (js_error + EncryptedRequest) \<times> module_state"
where
  "encryptRequest P payload payloadType reply keyRand ivRand seed st =
     apfst (catch_rethrow (js ''Failed to encrypt request payload''))
       (encryptRequest_try P payload payloadType reply keyRand ivRand seed st)"

text \<open>The error thrown inside \<open>decryptResponse\<close> when \<open>!aesKey\<close> holds.\<close>

definition noKeyError :: "jsstring \<Rightarrow> js_error" where
  "noKeyError sid = Error (js ''No AES key found for session: '' @ sid)"

text \<open>
  The body of \<open>decryptResponse\<close>'s \<open>try\<close>, with the state it leaves: the entry is
  deleted after \<open>decryptPayload\<close> has returned. \<open>decryptPayload\<close> uses its key
  argument in \<open>atob(base64Key)\<close> only, which decodes the string of the value.
\<close>

definition decryptResponse_try ::
  "('j, 'pk) platform \<Rightarrow> EncryptedResponse \<Rightarrow> module_state \<Rightarrow> (js_error + 'j) \<times> module_state"
where
  "decryptResponse_try P encryptedResponse st =
     (let sid = resp_sessionId encryptedResponse;
          aesKey = get_property (aesKeyStore st) sid
      in if \<not> truthy aesKey then (Inl (noKeyError sid), st)
         else
           (case decryptPayload P (resp_encryptedData encryptedResponse) (ToString aesKey) of
              Inl e \<Rightarrow> (Inl e, st)
            | Inr decrypted \<Rightarrow>
                (Inr decrypted, st\<lparr>aesKeyStore := (aesKeyStore st)(sid := None)\<rparr>)))"

definition decryptResponse ::
  "('j, 'pk) platform \<Rightarrow> EncryptedResponse \<Rightarrow> module_state \<Rightarrow> (js_error + 'j) \<times> module_state"
where
  "decryptResponse P encryptedResponse st =
     apfst (catch_rethrow (js ''Failed to decrypt response payload''))
       (decryptResponse_try P encryptedResponse st)"

section \<open>A platform of test doubles\<close>

text \<open>
  To run the model on concrete inputs: JSON over the booleans (\<open>true\<close> and \<open>false\<close>
  are the only texts that parse), a text decoder that is right on ASCII, a cipher that
  leaves the data as it is and appends a tag made of key and IV, an SPKI import that
  takes any non-empty DER, an RSA that returns its plaintext, so that the wrapped
  key shows what was handed to RSA, and calls of at most 65536 arguments.
\<close>

definition test_tag :: "bytes \<Rightarrow> bytes \<Rightarrow> nat \<Rightarrow> bytes" where
  "test_tag key iv t = take (t div 8) (key @ iv @ replicate (t div 8) 0)"

definition test_platform :: "(bool, bytes) platform" where
  "test_platform =
     \<lparr>JSON_stringify = (\<lambda>b. JsonText (js (if b then ''true'' else ''false''))),
      JSON_parse = (\<lambda>t. if t = js ''true'' then Some True
                         else if t = js ''false'' then Some False else None),
      TextDecoder_decode = map ucast,
      AES_GCM_encrypt = (\<lambda>key iv t data. data @ test_tag key iv t),
      AES_GCM_decrypt = (\<lambda>key iv t data.
         if t div 8 \<le> length data \<and> drop (length data - t div 8) data = test_tag key iv t
         then Some (take (length data - t div 8) data) else None),
      importKey_spki = (\<lambda>h der. if der = [] then None else Some der),
      RSA_OAEP_encrypt = (\<lambda>publicKey seed data. Some data),
      argument_limit = 65536\<rparr>"



text \<open>
  Inputs the model is run on. The store holds, for session \<open>s1\<close>, the key of 32 bytes
  of value 1, whose tag under the test cipher is 16 bytes of value 1. Both envelopes
  start with an IV of 12 zero bytes: \<open>envelope_bad_tag\<close> goes on with 16 zero bytes, an
  empty ciphertext under a tag that does not verify; \<open>envelope_true\<close> goes on with the
  text \<open>true\<close> under the tag that verifies. The key endpoint's reply names session
  \<open>s1\<close> and a public key whose DER is the bytes 1, 2, 3.
\<close>

abbreviation store_with_key :: module_state where
  "store_with_key \<equiv>
     \<lparr>currentSession = None, aesKeyStore = [js ''s1'' \<mapsto> base64_encode (replicate 32 1)]\<rparr>"

abbreviation empty_store :: module_state where
  "empty_store \<equiv> \<lparr>currentSession = None, aesKeyStore = Map.empty\<rparr>"

abbreviation envelope_bad_tag :: EncryptedResponse where
  "envelope_bad_tag \<equiv>
     \<lparr>resp_sessionId = js ''s1'', resp_encryptedData = base64_encode (replicate 28 0),
      resp_encryptedKey = []\<rparr>"

abbreviation envelope_true :: EncryptedResponse where
  "envelope_true \<equiv>
     \<lparr>resp_sessionId = js ''s1'',
      resp_encryptedData =
        base64_encode (replicate 12 0 @ utf8_encode (js ''true'') @ replicate 16 1),
      resp_encryptedKey = []\<rparr>"

abbreviation key_data :: PublicKeyData where
  "key_data \<equiv>
     \<lparr>pkd_sessionId = js ''s1'', pkd_publicKey = base64_encode [1, 2, 3],
      pkd_expiryTime = [], pkd_ttlSeconds = 300\<rparr>"

abbreviation key_reply :: "PublicKeyData option option" where
  "key_reply \<equiv> Some (Some key_data)"

section \<open>Facts about bytes, strings and base64\<close>

lemma ucast_byte_roundtrip: "(ucast (ucast (a::byte) :: code_unit) :: byte) = a"
  by (rule ucast_up_ucast_id) (simp add: is_up)

lemma unat_byte: "unat (b::byte) < 256"
  using unsigned_less [of b, where ?'a = nat] by simp

lemma unat_ucast_byte: "unat (ucast (b::byte) :: code_unit) = unat b"
  using unat_byte [of b] by (simp add: unsigned_ucast_eq take_bit_nat_eq_self)

lemma charCodes_fromCharCode: "charCodes (fromCharCode bs) = bs"
  by (simp add: charCodes_def fromCharCode_def ucast_byte_roundtrip map_idI)

lemma unat_byte_le: "unat (b::byte) \<le> 255"
  using unat_byte [of b] by simp

lemma btoa_fromCharCode: "btoa (fromCharCode bs) = Some (base64_encode bs)"
proof -
  have "list_all (\<lambda>c. unat c \<le> 255) (fromCharCode bs)"
    by (simp add: fromCharCode_def list_all_iff unat_ucast_byte unat_byte_le)
  then show ?thesis
    by (simp add: btoa_def charCodes_fromCharCode)
qed

lemma b64_value_char: "n < 64 \<Longrightarrow> b64_value (b64_char n) = Some n"
  by (auto simp: b64_value_def b64_char_def unat_of_nat Let_def)

lemma b64_char_not_pad: "n < 64 \<Longrightarrow> b64_char n \<noteq> 61"
  by (auto simp: b64_char_def word_unat_eq_iff unat_of_nat)

lemma b64_char_not_ws: "n < 64 \<Longrightarrow> \<not> is_ascii_whitespace (b64_char n)"
  by (auto simp: b64_char_def is_ascii_whitespace_def unat_of_nat)


lemma recombine4:
  fixes n :: nat
  shows "n div 262144 * 262144 + n div 4096 mod 64 * 4096 + n div 64 mod 64 * 64 + n mod 64 = n"
proof -
  define n1 where "n1 = n div 64"
  define n2 where "n2 = n1 div 64"
  define n3 where "n3 = n2 div 64"
  have e1: "n div 4096 = n2" using div_mult2_eq [of n 64 64] by (simp add: n1_def n2_def)
  have e2: "n div 262144 = n3" using div_mult2_eq [of n 4096 64] e1 by (simp add: n3_def)
  have a: "n = n1 * 64 + n mod 64" by (simp add: n1_def)
  have b: "n1 = n2 * 64 + n1 mod 64" by (simp add: n2_def)
  have c: "n2 = n3 * 64 + n2 mod 64" by (simp add: n3_def)
  define x0 where "x0 = n mod 64"
  define x1 where "x1 = n1 mod 64"
  define x2 where "x2 = n2 mod 64"
  have "n3 * 262144 + x2 * 4096 + x1 * 64 + x0 = n"
    using a b c unfolding x0_def [symmetric] x1_def [symmetric] x2_def [symmetric] by linarith
  then show ?thesis
    by (simp add: e1 e2 x0_def x1_def x2_def n1_def [symmetric])
qed

lemma div_mod_base:
  fixes x c k :: nat
  assumes "c < k"
  shows "(x * k + c) div k = x" and "(x * k + c) mod k = c"
  using assms by simp_all

lemma split3:
  fixes a b c :: nat
  assumes "a < 256" "b < 256" "c < 256"
  shows "(a * 65536 + b * 256 + c) div 65536 = a"
    and "(a * 65536 + b * 256 + c) div 256 mod 256 = b"
    and "(a * 65536 + b * 256 + c) mod 256 = c"
proof -
  have eq: "a * 65536 + b * 256 + c = (a * 256 + b) * 256 + c" by simp
  have d1: "((a * 256 + b) * 256 + c) div 256 = a * 256 + b"
    using assms(3) by (rule div_mod_base)
  have m1: "((a * 256 + b) * 256 + c) mod 256 = c"
    using assms(3) by (rule div_mod_base)
  have d2: "(a * 256 + b) div 256 = a" and m2: "(a * 256 + b) mod 256 = b"
    using assms(2) by (rule div_mod_base)+
  show "(a * 65536 + b * 256 + c) mod 256 = c" unfolding eq by (rule m1)
  show "(a * 65536 + b * 256 + c) div 256 mod 256 = b" unfolding eq d1 by (rule m2)
  have "(a * 65536 + b * 256 + c) div 65536 = (a * 65536 + b * 256 + c) div 256 div 256"
    using div_mult2_eq [of "a * 65536 + b * 256 + c" 256 256] by simp
  then show "(a * 65536 + b * 256 + c) div 65536 = a" unfolding eq d1 d2 .
qed

lemma tail2:
  fixes a b :: nat
  assumes "a < 256" "b < 256"
  defines "n \<equiv> a * 65536 + b * 256"
  shows "(n div 262144 * 4096 + n div 4096 mod 64 * 64 + n div 64 mod 64) div 4 div 256 = a"
    and "(n div 262144 * 4096 + n div 4096 mod 64 * 64 + n div 64 mod 64) div 4 mod 256 = b"
proof -
  have r: "n div 262144 * 262144 + n div 4096 mod 64 * 4096 + n div 64 mod 64 * 64 + n mod 64 = n"
    by (rule recombine4)
  have z: "n mod 64 = 0" unfolding n_def by presburger
  define t where "t = n div 262144 * 4096 + n div 4096 mod 64 * 64 + n div 64 mod 64"
  have "t * 64 = n" using r z unfolding t_def by simp
  then have "t * 64 = (a * 256 + b) * 4 * 64" unfolding n_def by simp
  then have t: "t = (a * 256 + b) * 4" by simp
  show "(n div 262144 * 4096 + n div 4096 mod 64 * 64 + n div 64 mod 64) div 4 div 256 = a"
    unfolding t_def [symmetric] t using assms(2) by simp
  show "(n div 262144 * 4096 + n div 4096 mod 64 * 64 + n div 64 mod 64) div 4 mod 256 = b"
    unfolding t_def [symmetric] t using assms(2) by simp
qed

lemma tail1:
  fixes a :: nat
  assumes "a < 256"
  defines "n \<equiv> a * 65536"
  shows "(n div 262144 * 64 + n div 4096 mod 64) div 16 = a"
proof -
  have e: "n div 4096 = a * 16" unfolding n_def by simp
  have "n div 262144 = n div 4096 div 64" using div_mult2_eq [of n 4096 64] by simp
  then have f: "n div 262144 = a * 16 div 64" by (simp add: e)
  have g: "a * 16 div 64 * 64 + a * 16 mod 64 = a * 16" by (rule div_mult_mod_eq)
  show ?thesis unfolding e f g by simp
qed


lemma bytes3_bound: "unat (a::byte) * 65536 + unat (b::byte) * 256 + unat (c::byte) < 64 * 262144"
  using unat_byte [of a] unat_byte [of b] unat_byte [of c] by simp

lemma encode_sextets_bound: "v \<in> set (encode_sextets bs) \<Longrightarrow> v < 64"
proof (induction bs arbitrary: v rule: encode_sextets.induct)
  case (1 a b c rest)
  have "(unat a * 65536 + unat b * 256 + unat c) div 262144 < 64"
    using bytes3_bound [of a b c] by (rule less_mult_imp_div_less)
  with 1 show ?case by (auto simp: Let_def)
next
  case (2 a b)
  have "(unat a * 65536 + unat b * 256 + unat (0::byte)) div 262144 < 64"
    using bytes3_bound [of a b 0] by (rule less_mult_imp_div_less)
  with 2 show ?case by (auto simp: Let_def)
next
  case (3 a)
  have "(unat a * 65536 + unat (0::byte) * 256 + unat (0::byte)) div 262144 < 64"
    using bytes3_bound [of a 0 0] by (rule less_mult_imp_div_less)
  with 3 show ?case by (auto simp: Let_def)
qed simp

lemma decode_encode_sextets: "decode_sextets (encode_sextets bs) = bs"
proof (induction bs rule: encode_sextets.induct)
  case (1 a b c rest)
  define n where "n = unat a * 65536 + unat b * 256 + unat c"
  have abc: "n div 65536 = unat a" "n div 256 mod 256 = unat b" "n mod 256 = unat c"
    unfolding n_def using split3 [OF unat_byte unat_byte unat_byte, of a b c] by simp_all
  show ?case using 1 by (simp add: Let_def n_def [symmetric] recombine4 abc)
next
  case (2 a b)
  show ?case using tail2 [OF unat_byte unat_byte, of a b] by (simp add: Let_def)
next
  case (3 a)
  show ?case using tail1 [OF unat_byte, of a] by (simp add: Let_def)
qed simp


lemma length_encode_sextets:
  "length (encode_sextets bs) mod 4 = (case length bs mod 3 of 0 \<Rightarrow> 0 | Suc 0 \<Rightarrow> 2 | _ \<Rightarrow> 3)"
proof (induction bs rule: encode_sextets.induct)
  case (1 a b c rest)
  have "length (a # b # c # rest) mod 3 = length rest mod 3" by simp
  moreover have "length (encode_sextets (a # b # c # rest)) mod 4 = length (encode_sextets rest) mod 4"
    by (simp add: Let_def)
  ultimately show ?case using 1 by simp
qed (simp_all add: Let_def)

lemma those_b64_value:
  "(\<And>v. v \<in> set vs \<Longrightarrow> v < 64) \<Longrightarrow> those (map b64_value (map b64_char vs)) = Some vs"
  by (induction vs) (simp_all add: b64_value_char)

lemma filter_ws_encode:
  "filter (\<lambda>c. \<not> is_ascii_whitespace c) (base64_encode bs) = base64_encode bs"
proof -
  have "\<not> is_ascii_whitespace (61 :: code_unit)" by (simp add: is_ascii_whitespace_def)
  then show ?thesis
    by (auto simp: base64_encode_def filter_id_conv dest: encode_sextets_bound b64_char_not_ws)
qed

lemma last_core_not_pad:
  "encode_sextets bs \<noteq> [] \<Longrightarrow> last (map b64_char (encode_sextets bs)) \<noteq> 61"
  using encode_sextets_bound [of "last (encode_sextets bs)" bs]
  by (simp add: last_map b64_char_not_pad)

lemma remove_padding_encode:
  "remove_padding (base64_encode bs) = map b64_char (encode_sextets bs)"
proof -
  let ?core = "map b64_char (encode_sextets bs)"
  have len: "length (encode_sextets bs) mod 4 = (case length bs mod 3 of 0 \<Rightarrow> 0 | Suc 0 \<Rightarrow> 2 | _ \<Rightarrow> 3)"
    by (rule length_encode_sextets)
  consider (r0) "length bs mod 3 = 0" | (r1) "length bs mod 3 = 1" | (r2) "length bs mod 3 = 2"
    by linarith
  then show ?thesis
  proof cases
    case r0
    then have e: "base64_encode bs = ?core" by (simp add: base64_encode_def)
    show ?thesis
      unfolding e using last_core_not_pad [of bs] by (auto simp: remove_padding_def)
  next
    case r1
    then have e: "base64_encode bs = ?core @ [61, 61]"
      by (simp add: base64_encode_def numeral_2_eq_2)
    have "length (?core @ [61, 61]) mod 4 = 0" using len r1 by (simp add: mod_Suc)
    then show ?thesis unfolding e by (simp add: remove_padding_def butlast_append)
  next
    case r2
    then have e: "base64_encode bs = ?core @ [61]"
      by (simp add: base64_encode_def)
    have l3: "length (encode_sextets bs) mod 4 = 3" using len r2 by (simp add: numeral_2_eq_2)
    then have ne: "encode_sextets bs \<noteq> []" by auto
    have "length (?core @ [61]) mod 4 = 0" using l3 by (simp add: mod_Suc)
    then show ?thesis unfolding e using last_core_not_pad [OF ne] ne
      by (simp add: remove_padding_def butlast_append)
  qed
qed

lemma base64_decode_encode: "base64_decode (base64_encode bs) = Some bs"
proof -
  have "length (encode_sextets bs) mod 4 \<noteq> 1"
    unfolding length_encode_sextets by (simp split: nat.split)
  then show ?thesis
    by (simp add: base64_decode_def filter_ws_encode remove_padding_encode
        those_b64_value encode_sextets_bound decode_encode_sextets del: map_map)
qed

lemma atob_encode: "atob (base64_encode bs) = Some (fromCharCode bs)"
  by (simp add: atob_def base64_decode_encode)

section \<open>Facts about the model\<close>

lemma length_base64_encode: "length (base64_encode bs) = 4 * ((length bs + 2) div 3)"
proof (induction bs rule: encode_sextets.induct)
  case (1 a b c rest)
  have "length (a # b # c # rest) mod 3 = length rest mod 3" by simp
  moreover have "(length (a # b # c # rest) + 2) div 3 = Suc ((length rest + 2) div 3)" by simp
  ultimately show ?case using 1 by (simp add: base64_encode_def Let_def)
qed (simp_all add: base64_encode_def Let_def)

lemma btoa_bytes_eq:
  "btoa_bytes P bs =
     (if length bs \<le> argument_limit P then Inr (base64_encode bs) else Inl RangeError)"
  by (simp add: btoa_bytes_def fromCharCode_spread_def btoa_fromCharCode)

lemma generateKey_keyLength: "generateKey r keyLength = Inr (map r [0..<32])"
  by (simp add: generateKey_def keyLength_def)

lemma generateEncryptionKey_eq:
  "generateEncryptionKey P r =
     (if 32 \<le> argument_limit P then Inr (base64_encode (map r [0..<32])) else Inl RangeError)"
  by (simp add: generateEncryptionKey_def generateKey_keyLength btoa_bytes_eq)

lemma generateEncryptionKey_Inr:
  assumes "generateEncryptionKey P r = Inr k"
  shows "k = base64_encode (map r [0..<32])" and "32 \<le> argument_limit P"
  using assms by (simp_all add: generateEncryptionKey_eq split: if_splits)

lemma length_getRandomValues: "length (getRandomValues r n) = n"
  by (simp add: getRandomValues_def)

lemma getRandomValues_const: "getRandomValues (\<lambda>i. c) n = replicate n c"
  by (simp add: getRandomValues_def map_replicate_const)

lemma base64_decode_Nil: "base64_decode [] = Some []"
  by (simp add: base64_decode_def remove_padding_def)

lemma importKey_decoded:
  assumes "base64_decode k = Some raw" and "length raw \<in> {16, 24, 32}"
  shows "importKey k = Inr raw"
  using assms by (simp add: importKey_def atob_def charCodes_fromCharCode)

lemma importKey_nonempty: "importKey k = Inr key \<Longrightarrow> k \<noteq> []"
  by (auto simp: importKey_def atob_def base64_decode_Nil charCodes_def fromCharCode_def
      split: option.splits if_splits)

lemma importKey_encode32: "length raw = 32 \<Longrightarrow> importKey (base64_encode raw) = Inr raw"
  by (intro importKey_decoded base64_decode_encode) simp

lemma importKey_generated: "importKey (base64_encode (map r [0..<32])) = Inr (map r [0..<32])"
  by (rule importKey_encode32) simp

lemma encryptPayload_try_key_used:
  assumes "importKey k = Inr key" and "JSON_stringify P payload \<noteq> JsonThrows"
  shows "encryptPayload_try P payload (Some k) keyRand ivRand =
           (if length (combined_bytes P key ivRand
                  (utf8_encode (case JSON_stringify P payload of JsonText t \<Rightarrow> t | _ \<Rightarrow> [])))
                \<le> argument_limit P
            then Inr \<lparr>encryptedData = base64_encode (combined_bytes P key ivRand
                        (utf8_encode (case JSON_stringify P payload of JsonText t \<Rightarrow> t | _ \<Rightarrow> []))),
                      encryptionKey = k\<rparr>
            else Inl RangeError)"
  using assms importKey_nonempty [OF assms(1)]
  by (cases "JSON_stringify P payload")
     (simp_all add: encryptPayload_try_def btoa_bytes_eq combined_bytes_def Let_def)

lemma encryptPayload_key_used:
  assumes "importKey k = Inr key" and "JSON_stringify P payload \<noteq> JsonThrows"
  shows "encryptPayload P payload (Some k) keyRand ivRand =
           (if length (combined_bytes P key ivRand
                  (utf8_encode (case JSON_stringify P payload of JsonText t \<Rightarrow> t | _ \<Rightarrow> [])))
                \<le> argument_limit P
            then Inr \<lparr>encryptedData = base64_encode (combined_bytes P key ivRand
                        (utf8_encode (case JSON_stringify P payload of JsonText t \<Rightarrow> t | _ \<Rightarrow> []))),
                      encryptionKey = k\<rparr>
            else Inl (Error (js ''Failed to encrypt payload'')))"
  by (simp add: encryptPayload_def encryptPayload_try_key_used [OF assms] catch_rethrow_def)

lemma encryptPayload_with_key:
  assumes "importKey k = Inr key" and "JSON_stringify P payload = JsonText t"
  shows "encryptPayload P payload (Some k) keyRand ivRand =
           (if length (combined_bytes P key ivRand (utf8_encode t)) \<le> argument_limit P
            then Inr \<lparr>encryptedData = base64_encode (combined_bytes P key ivRand (utf8_encode t)),
                      encryptionKey = k\<rparr>
            else Inl (Error (js ''Failed to encrypt payload'')))"
  using encryptPayload_key_used [OF assms(1), of P payload keyRand ivRand] assms(2) by simp





lemma decryptPayload_try_encoded:
  assumes "importKey k = Inr key"
  shows "decryptPayload_try P (base64_encode combined) k =
           (case AES_GCM_decrypt P key (take ivLength combined) tagLength (drop ivLength combined) of
              None \<Rightarrow> Inl OperationError
            | Some buf \<Rightarrow>
                (case JSON_parse P (TextDecoder_decode P buf) of
                   None \<Rightarrow> Inl SyntaxError
                 | Some v \<Rightarrow> Inr v))"
  using assms
  by (simp add: decryptPayload_try_def atob_encode charCodes_fromCharCode Let_def
      split: option.split)


lemma length_test_tag: "length (test_tag key iv t) = t div 8"
  by (simp add: test_tag_def)



lemma test_tag_length:
  "length (AES_GCM_encrypt test_platform key iv t data) = length data + t div 8"
  by (simp add: test_platform_def length_test_tag)

lemma test_limit: "argument_limit test_platform = 65536"
  by (simp add: test_platform_def)

lemma decryptPayload_error:
  "decryptPayload P e k = Inl err \<Longrightarrow> err = Error (js ''Failed to decrypt payload'')"
  by (auto simp: decryptPayload_def catch_rethrow_def split: sum.splits)

lemma decryptPayload_Inr_iff:
  "decryptPayload P e k = Inr v \<longleftrightarrow> decryptPayload_try P e k = Inr v"
  by (auto simp: decryptPayload_def catch_rethrow_def split: sum.splits)

lemma decryptPayload_Inl_iff:
  "decryptPayload P e k = Inl (Error (js ''Failed to decrypt payload''))
     \<longleftrightarrow> (\<exists>err. decryptPayload_try P e k = Inl err)"
  by (auto simp: decryptPayload_def catch_rethrow_def split: sum.splits)

lemma decryptPayload_try_decoded:
  assumes "importKey k = Inr key" and "base64_decode e = Some combined"
  shows "decryptPayload_try P e k =
           (case AES_GCM_decrypt P key (take ivLength combined) tagLength (drop ivLength combined) of
              None \<Rightarrow> Inl OperationError
            | Some buf \<Rightarrow>
                (case JSON_parse P (TextDecoder_decode P buf) of
                   None \<Rightarrow> Inl SyntaxError
                 | Some v \<Rightarrow> Inr v))"
  using assms
  by (simp add: decryptPayload_try_def atob_def charCodes_fromCharCode Let_def
      split: option.split)

lemma decryptPayload_try_Inr:
  assumes "decryptPayload_try P e k = Inr v"
  shows "\<exists>key combined buf. importKey k = Inr key \<and> base64_decode e = Some combined
           \<and> AES_GCM_decrypt P key (take ivLength combined) tagLength (drop ivLength combined)
               = Some buf
           \<and> JSON_parse P (TextDecoder_decode P buf) = Some v"
proof -
  obtain key where key: "importKey k = Inr key"
    using assms by (cases "importKey k") (simp_all add: decryptPayload_try_def)
  obtain combined where env: "base64_decode e = Some combined"
    using assms key by (cases "base64_decode e") (simp_all add: decryptPayload_try_def atob_def)
  show ?thesis
    using assms key env
    by (auto simp: decryptPayload_try_decoded [OF key env] split: option.splits)
qed
lemma those_None: "None \<in> set xs \<Longrightarrow> those xs = None"
  by (induction xs) (auto split: option.splits)

lemma in_set_butlast: "c \<in> set xs \<Longrightarrow> c \<noteq> last xs \<Longrightarrow> c \<in> set (butlast xs)"
  by (induction xs) (auto split: if_splits)

lemma remove_padding_keeps:
  assumes "c \<in> set d" and "c \<noteq> 61"
  shows "c \<in> set (remove_padding d)"
proof (cases "length d mod 4 = 0 \<and> d \<noteq> [] \<and> last d = 61")
  case False
  then have "remove_padding d = d" unfolding remove_padding_def by (rule if_not_P)
  then show ?thesis using assms(1) by simp
next
  case True
  have one: "c \<in> set (butlast d)"
    by (rule in_set_butlast [OF assms(1)]) (use True assms(2) in simp)
  show ?thesis
  proof (cases "butlast d \<noteq> [] \<and> last (butlast d) = 61")
    case False
    then have "remove_padding d = butlast d"
      unfolding remove_padding_def if_P [OF True] by (rule if_not_P)
    then show ?thesis using one by simp
  next
    case inner: True
    have two: "c \<in> set (butlast (butlast d))"
      by (rule in_set_butlast [OF one]) (use inner assms(2) in simp)
    have "remove_padding d = butlast (butlast d)"
      unfolding remove_padding_def if_P [OF True] using inner by (rule if_P)
    then show ?thesis using two by simp
  qed
qed

lemma base64_decode_outside:
  assumes "c \<in> set s" and "\<not> is_ascii_whitespace c" and "c \<noteq> 61" and "b64_value c = None"
  shows "base64_decode s = None"
proof -
  have "c \<in> set (filter (\<lambda>c. \<not> is_ascii_whitespace c) s)"
    using assms(1,2) by simp
  then have "c \<in> set (remove_padding (filter (\<lambda>c. \<not> is_ascii_whitespace c) s))"
    using assms(3) by (rule remove_padding_keeps)
  then have "b64_value c
      \<in> set (map b64_value (remove_padding (filter (\<lambda>c. \<not> is_ascii_whitespace c) s)))"
    by (metis image_eqI set_map)
  then have "None \<in> set (map b64_value (remove_padding (filter (\<lambda>c. \<not> is_ascii_whitespace c) s)))"
    by (simp only: assms(4))
  then show ?thesis by (simp add: base64_decode_def Let_def those_None)
qed

lemma bracket_outside:
  "\<not> is_ascii_whitespace 91" "(91::code_unit) \<noteq> 61" "b64_value 91 = None"
  by (simp_all add: is_ascii_whitespace_def b64_value_def)

lemma inherited_text_bracket: "91 \<in> set (inherited_text name)"
  by (simp add: inherited_text_def js_def)

lemma importKey_inherited: "importKey (inherited_text name) = Inl InvalidCharacterError"
  using base64_decode_outside [OF inherited_text_bracket bracket_outside, of name]
  by (simp add: importKey_def atob_def)

lemma decryptPayload_inherited:
  "decryptPayload_try P e (inherited_text name) = Inl InvalidCharacterError"
  "decryptPayload P e (inherited_text name) = Inl (Error (js ''Failed to decrypt payload''))"
  by (simp_all add: decryptPayload_def decryptPayload_try_def importKey_inherited catch_rethrow_def)

lemma decryptResponse_no_key:
  assumes "aesKeyStore st (resp_sessionId env) = None"
    and "resp_sessionId env \<notin> set object_prototype_names"
  shows "decryptResponse_try P env st = (Inl (noKeyError (resp_sessionId env)), st)"
    and "decryptResponse P env st = (Inl (Error (js ''Failed to decrypt response payload'')), st)"
  using assms
  by (simp_all add: decryptResponse_def decryptResponse_try_def catch_rethrow_def
      get_property_def)

lemma decryptResponse_inherited:
  assumes "aesKeyStore st (resp_sessionId env) = None"
    and "resp_sessionId env \<in> set object_prototype_names"
  shows "decryptResponse_try P env st = (Inl (Error (js ''Failed to decrypt payload'')), st)"
    and "decryptResponse P env st = (Inl (Error (js ''Failed to decrypt response payload'')), st)"
  using assms
  by (simp_all add: decryptResponse_def decryptResponse_try_def catch_rethrow_def
      get_property_def decryptPayload_inherited)

lemma decryptResponse_with_key:
  assumes "aesKeyStore st (resp_sessionId env) = Some k" and "k \<noteq> []"
  shows "decryptResponse P env st =
           (case decryptPayload P (resp_encryptedData env) k of
              Inl e \<Rightarrow> (Inl (Error (js ''Failed to decrypt response payload'')), st)
            | Inr v \<Rightarrow> (Inr v, st\<lparr>aesKeyStore := (aesKeyStore st)(resp_sessionId env := None)\<rparr>))"
  using assms
  by (simp add: decryptResponse_def decryptResponse_try_def catch_rethrow_def Let_def
      get_property_def split: sum.split)

lemma decryptResponse_empty_key:
  assumes "aesKeyStore st (resp_sessionId env) = Some []"
  shows "decryptResponse P env st = (Inl (Error (js ''Failed to decrypt response payload'')), st)"
  using assms
  by (simp add: decryptResponse_def decryptResponse_try_def catch_rethrow_def get_property_def)

lemma decryptResponse_lookup_fails:
  assumes "aesKeyStore st (resp_sessionId env) = None"
  shows "decryptResponse P env st = (Inl (Error (js ''Failed to decrypt response payload'')), st)"
  using decryptResponse_no_key(2) [OF assms] decryptResponse_inherited(2) [OF assms]
  by (cases "resp_sessionId env \<in> set object_prototype_names")

lemma decryptResponse_failure:
  assumes "fst (decryptResponse P env st) = Inl e"
  shows "e = Error (js ''Failed to decrypt response payload'')"
    and "snd (decryptResponse P env st) = st"
proof -
  consider (none) "aesKeyStore st (resp_sessionId env) = None"
    | (empty) "aesKeyStore st (resp_sessionId env) = Some []"
    | (key) k where "aesKeyStore st (resp_sessionId env) = Some k" "k \<noteq> []"
    by (cases "aesKeyStore st (resp_sessionId env)") auto
  then have "e = Error (js ''Failed to decrypt response payload'') \<and> snd (decryptResponse P env st) = st"
  proof cases
    case none
    then show ?thesis using assms by (simp add: decryptResponse_lookup_fails)
  next
    case empty
    then show ?thesis using assms by (simp add: decryptResponse_empty_key)
  next
    case key
    then show ?thesis using assms
      by (cases "decryptPayload P (resp_encryptedData env) k") (simp_all add: decryptResponse_with_key)
  qed
  then show "e = Error (js ''Failed to decrypt response payload'')"
    and "snd (decryptResponse P env st) = st" by simp_all
qed

lemma decryptResponse_success:
  assumes "fst (decryptResponse P env st) = Inr v"
  shows "snd (decryptResponse P env st) =
           st\<lparr>aesKeyStore := (aesKeyStore st)(resp_sessionId env := None)\<rparr>"
    and "\<exists>k. aesKeyStore st (resp_sessionId env) = Some k \<and> k \<noteq> []
             \<and> decryptPayload P (resp_encryptedData env) k = Inr v"
proof -
  consider (none) "aesKeyStore st (resp_sessionId env) = None"
    | (empty) "aesKeyStore st (resp_sessionId env) = Some []"
    | (key) k where "aesKeyStore st (resp_sessionId env) = Some k" "k \<noteq> []"
    by (cases "aesKeyStore st (resp_sessionId env)") auto
  then have "snd (decryptResponse P env st) =
           st\<lparr>aesKeyStore := (aesKeyStore st)(resp_sessionId env := None)\<rparr>
     \<and> (\<exists>k. aesKeyStore st (resp_sessionId env) = Some k \<and> k \<noteq> []
             \<and> decryptPayload P (resp_encryptedData env) k = Inr v)"
  proof cases
    case none
    then show ?thesis using assms by (simp add: decryptResponse_lookup_fails)
  next
    case empty
    then show ?thesis using assms by (simp add: decryptResponse_empty_key)
  next
    case key
    then show ?thesis using assms
      by (cases "decryptPayload P (resp_encryptedData env) k") (simp_all add: decryptResponse_with_key)
  qed
  then show "snd (decryptResponse P env st) =
           st\<lparr>aesKeyStore := (aesKeyStore st)(resp_sessionId env := None)\<rparr>"
    and "\<exists>k. aesKeyStore st (resp_sessionId env) = Some k \<and> k \<noteq> []
             \<and> decryptPayload P (resp_encryptedData env) k = Inr v" by simp_all
qed

lemma test_bad_tag:
  "decryptPayload_try test_platform (base64_encode (replicate 28 0)) (base64_encode (replicate 32 1))
     = Inl OperationError"
  by (simp add: decryptPayload_try_encoded [OF importKey_encode32] test_platform_def test_tag_def
      ivLength_def tagLength_def)

lemma test_not_json:
  "decryptPayload_try test_platform (base64_encode (replicate 12 0 @ replicate 16 1))
     (base64_encode (replicate 32 1)) = Inl SyntaxError"
  by (simp add: decryptPayload_try_encoded [OF importKey_encode32] test_platform_def test_tag_def
      ivLength_def tagLength_def js_def)

lemma test_valid:
  "decryptPayload_try test_platform
     (base64_encode (replicate 12 0 @ utf8_encode (js ''true'') @ replicate 16 1))
     (base64_encode (replicate 32 1)) = Inr True"
  by (simp add: decryptPayload_try_encoded [OF importKey_encode32] test_platform_def test_tag_def
      ivLength_def tagLength_def js_def)

lemma noKeyError_not_generic:
  "noKeyError sid \<noteq> Error (js ''Failed to decrypt response payload'')"
  by (simp add: noKeyError_def js_def)

lemma s1_not_inherited: "js ''s1'' \<notin> set object_prototype_names"
  by (simp add: object_prototype_names_def js_def)

lemma toString_inherited: "js ''toString'' \<in> set object_prototype_names"
  by (simp add: object_prototype_names_def)

lemma test_decryptResponse_bad_tag:
  "decryptResponse test_platform envelope_bad_tag store_with_key
   = (Inl (Error (js ''Failed to decrypt response payload'')), store_with_key)"
proof -
  have ne: "base64_encode (replicate 32 (1::byte)) \<noteq> []"
    using importKey_nonempty [OF importKey_encode32, of "replicate 32 1"] by simp
  show ?thesis
    by (subst decryptResponse_with_key [where k = "base64_encode (replicate 32 1)"])
       (simp_all add: ne decryptPayload_def test_bad_tag catch_rethrow_def)
qed

lemma test_decryptResponse_valid:
  "decryptResponse test_platform envelope_true store_with_key
   = (Inr True, empty_store)"
proof -
  have ne: "base64_encode (replicate 32 (1::byte)) \<noteq> []"
    using importKey_nonempty [OF importKey_encode32, of "replicate 32 1"] by simp
  show ?thesis
    by (subst decryptResponse_with_key [where k = "base64_encode (replicate 32 1)"])
       (simp_all add: ne decryptPayload_def test_valid catch_rethrow_def)
qed

lemma test_decryptResponse_valid_at:
  "decryptResponse test_platform (envelope_true\<lparr>resp_sessionId := sid\<rparr>)
     \<lparr>currentSession = None, aesKeyStore = [sid \<mapsto> base64_encode (replicate 32 1)]\<rparr>
   = (Inr True, empty_store)"
proof -
  have ne: "base64_encode (replicate 32 (1::byte)) \<noteq> []"
    using importKey_nonempty [OF importKey_encode32, of "replicate 32 1"] by simp
  show ?thesis
    by (subst decryptResponse_with_key [where k = "base64_encode (replicate 32 1)"])
       (simp_all add: ne decryptPayload_def test_valid catch_rethrow_def)
qed

lemma base64_encode_inj:
  assumes "base64_encode a = base64_encode b"
  shows "a = b"
proof -
  have "Some a = base64_decode (base64_encode a)" by (simp only: base64_decode_encode)
  also have "\<dots> = base64_decode (base64_encode b)" by (simp only: assms)
  also have "\<dots> = Some b" by (simp only: base64_decode_encode)
  finally show ?thesis by (simp only: option.inject)
qed

lemma base64_encode_nonempty: "bs \<noteq> [] \<Longrightarrow> base64_encode bs \<noteq> []"
  using length_base64_encode [of bs] by (cases bs) auto

lemma b64_char_ascii: "n < 64 \<Longrightarrow> unat (b64_char n) < 128"
  by (auto simp: b64_char_def unat_of_nat)

lemma b64_char_not_js_ws: "n < 64 \<Longrightarrow> \<not> is_js_whitespace (b64_char n)"
  by (auto simp: b64_char_def is_js_whitespace_def unat_of_nat Let_def)

lemma b64_char_not_dash: "n < 64 \<Longrightarrow> b64_char n \<noteq> 45"
  by (auto simp: b64_char_def word_unat_eq_iff unat_of_nat)

lemma base64_encode_chars:
  assumes "c \<in> set (base64_encode bs)"
  shows "unat c < 128" and "\<not> is_js_whitespace c" and "c \<noteq> 45"
proof -
  from assms consider (sx) n where "n < 64" "c = b64_char n" | (pad) "c = 61"
    by (auto simp: base64_encode_def dest: encode_sextets_bound)
  then have "unat c < 128 \<and> \<not> is_js_whitespace c \<and> c \<noteq> 45"
  proof cases
    case sx
    then show ?thesis by (simp add: b64_char_ascii b64_char_not_js_ws b64_char_not_dash)
  next
    case pad
    then show ?thesis by (simp add: is_js_whitespace_def)
  qed
  then show "unat c < 128" and "\<not> is_js_whitespace c" and "c \<noteq> 45" by simp_all
qed

lemma utf8_encode_ascii:
  "(\<And>c. c \<in> set s \<Longrightarrow> unat c < 128) \<Longrightarrow> utf8_encode s = charCodes s"
proof (induction s rule: utf8_encode.induct)
  case 1
  then show ?case by (simp add: charCodes_def)
next
  case (2 c)
  have "(of_nat (unat c) :: byte) = ucast c" by simp
  with 2 show ?case by (simp add: charCodes_def Let_def)
next
  case (3 c d cs)
  have "(of_nat (unat c) :: byte) = ucast c" by simp
  moreover have "unat c < 128" using 3(6) by simp
  moreover have "utf8_encode (d # cs) = charCodes (d # cs)"
    using 3 by (simp add: Let_def)
  ultimately show ?case by (simp add: charCodes_def Let_def)
qed

lemma utf8_encode_base64: "utf8_encode (base64_encode bs) = charCodes (base64_encode bs)"
  by (rule utf8_encode_ascii) (rule base64_encode_chars)

lemma trim_no_whitespace:
  assumes "\<And>c. c \<in> set s \<Longrightarrow> \<not> is_js_whitespace c"
  shows "trim s = s"
proof -
  have "dropWhile is_js_whitespace t = t" if "set t \<subseteq> set s" for t
    using that assms by (cases t) auto
  then show ?thesis by (simp add: trim_def)
qed

lemma remove_whitespace_none:
  "(\<And>c. c \<in> set s \<Longrightarrow> \<not> is_js_whitespace c) \<Longrightarrow> remove_whitespace s = s"
  by (simp add: remove_whitespace_def filter_id_conv)

lemma remove_first_prefix: "pat \<noteq> [] \<Longrightarrow> remove_first pat (pat @ rest) = rest"
  by (cases pat) simp_all

lemma remove_first_absent: "pat \<noteq> [] \<Longrightarrow> hd pat \<notin> set s \<Longrightarrow> remove_first pat s = s"
proof (induction s)
  case Nil
  then show ?case by simp
next
  case (Cons c cs)
  then have "\<not> prefix pat (c # cs)" by (cases pat) auto
  with Cons show ?case by simp
qed

lemma remove_first_suffix:
  "pat \<noteq> [] \<Longrightarrow> hd pat \<notin> set s \<Longrightarrow> remove_first pat (s @ pat @ rest) = s @ rest"
proof (induction s)
  case Nil
  then show ?case by (simp add: remove_first_prefix)
next
  case (Cons c cs)
  then have "\<not> prefix pat (c # cs @ pat @ rest)" by (cases pat) auto
  with Cons show ?case by simp
qed

lemma pemHeader_hd: "pemHeader \<noteq> []" "hd pemHeader = 45" "last pemHeader = 45"
  by (simp_all add: pemHeader_def js_def)

lemma pemFooter_hd: "pemFooter \<noteq> []" "hd pemFooter = 45" "last pemFooter = 45"
  by (simp_all add: pemFooter_def js_def)

lemma dash_not_whitespace: "\<not> is_js_whitespace 45" "\<not> is_ascii_whitespace 45" "b64_value 45 = None"
  by (simp_all add: is_js_whitespace_def is_ascii_whitespace_def b64_value_def)

lemma base64_decode_dash: "45 \<in> set s \<Longrightarrow> base64_decode s = None"
  by (rule base64_decode_outside [where c = 45]) (simp_all add: dash_not_whitespace)

lemma pem_contents:
  assumes "45 \<notin> set body"
  shows "remove_first pemFooter (remove_first pemHeader (pemHeader @ body @ pemFooter)) = body"
proof -
  have "remove_first pemHeader (pemHeader @ body @ pemFooter) = body @ pemFooter"
    by (rule remove_first_prefix) (rule pemHeader_hd)
  moreover have "remove_first pemFooter (body @ pemFooter @ []) = body @ []"
    by (rule remove_first_suffix) (simp_all add: pemFooter_hd assms)
  ultimately show ?thesis by simp
qed

lemma raw_contents:
  assumes "45 \<notin> set raw"
  shows "remove_first pemFooter (remove_first pemHeader raw) = raw"
  using assms by (simp add: remove_first_absent pemHeader_hd pemFooter_hd)

lemma importPublicKey_contents:
  assumes "remove_whitespace (remove_first pemFooter (remove_first pemHeader a))
         = remove_whitespace (remove_first pemFooter (remove_first pemHeader b))"
  shows "importPublicKey P a = importPublicKey P b"
  using assms by (simp add: importPublicKey_def importPublicKey_try_def)

lemma importPublicKey_base64:
  "importPublicKey P (base64_encode der) =
     (case importKey_spki P SHA_256 der of
        None \<Rightarrow> Inl (Error (js ''Failed to import RSA public key''))
      | Some k \<Rightarrow> Inr k)"
proof -
  have "45 \<notin> set (base64_encode der)" using base64_encode_chars(3) by blast
  then have "remove_whitespace (remove_first pemFooter (remove_first pemHeader (base64_encode der)))
               = base64_encode der"
    by (simp add: raw_contents remove_whitespace_none base64_encode_chars(2))
  then show ?thesis
    by (simp add: importPublicKey_def importPublicKey_try_def atob_encode charCodes_fromCharCode
        catch_rethrow_def split: option.split)
qed

lemma importRSAPublicKeyFromBase64_base64:
  assumes "der \<noteq> []"
  shows "importRSAPublicKeyFromBase64 P (base64_encode der) =
           (case importKey_spki P SHA_256 der of
              None \<Rightarrow> Inl (Error (js ''Failed to import RSA public key''))
            | Some k \<Rightarrow> Inr k)"
proof -
  have t: "trim (base64_encode der) = base64_encode der"
    by (rule trim_no_whitespace) (rule base64_encode_chars(2))
  have ne: "base64_encode der \<noteq> []" using assms by (rule base64_encode_nonempty)
  show ?thesis
    using ne
    by (simp add: importRSAPublicKeyFromBase64_def importRSAPublicKeyFromBase64_try_def t
        atob_encode charCodes_fromCharCode catch_rethrow_def RSA_CONFIG_hash_def
        split: option.split)
qed

lemma trim_dashes:
  assumes "s \<noteq> []" and "hd s = 45" and "last s = 45"
  shows "trim s = s"
proof -
  have a: "dropWhile is_js_whitespace s = s"
    using assms(1,2) by (cases s) (simp_all add: dash_not_whitespace)
  have "rev s \<noteq> []" and "hd (rev s) = 45" using assms(1,3) by (simp_all add: hd_rev)
  then have b: "dropWhile is_js_whitespace (rev s) = rev s"
    by (cases "rev s") (simp_all add: dash_not_whitespace)
  show ?thesis by (simp add: trim_def a b)
qed

lemma importRSAPublicKeyFromBase64_pem:
  "importRSAPublicKeyFromBase64 P (pemHeader @ body @ pemFooter) =
     Inl (Error (js ''Failed to import RSA public key''))"
proof -
  let ?s = "pemHeader @ body @ pemFooter"
  have ne: "?s \<noteq> []" using pemHeader_hd(1) by simp
  have h: "hd ?s = 45" using pemHeader_hd by simp
  have l: "last ?s = 45" using pemFooter_hd by simp
  have t: "trim ?s = ?s" using ne h l by (rule trim_dashes)
  have "hd pemHeader \<in> set pemHeader" using pemHeader_hd(1) by (rule hd_in_set)
  then have "45 \<in> set ?s" by (simp add: pemHeader_hd(2))
  then have "atob ?s = None" by (simp add: atob_def base64_decode_dash)
  then show ?thesis
    using ne
    by (simp add: importRSAPublicKeyFromBase64_def importRSAPublicKeyFromBase64_try_def t
        catch_rethrow_def del: append_is_Nil_conv)
qed

lemma whitespace_body_no_dash:
  assumes "45 \<notin> set raw" and "remove_whitespace body = remove_whitespace raw"
  shows "45 \<notin> set body"
proof
  assume "45 \<in> set body"
  then have "45 \<in> set (remove_whitespace body)"
    by (simp add: remove_whitespace_def dash_not_whitespace)
  then have "45 \<in> set (remove_whitespace raw)" by (simp add: assms(2))
  then show False using assms(1) by (simp add: remove_whitespace_def)
qed

lemma getPublicKey_ok:
  assumes "pkd_sessionId d \<noteq> []" and "pkd_publicKey d \<noteq> []"
  shows "getPublicKey (Some (Some d)) st =
           (Inr \<lparr>sess_sessionId = pkd_sessionId d, sess_publicKey = pkd_publicKey d,
                 sess_expiryTime = pkd_expiryTime d\<rparr>,
            st\<lparr>currentSession := Some \<lparr>sess_sessionId = pkd_sessionId d,
                   sess_publicKey = pkd_publicKey d, sess_expiryTime = pkd_expiryTime d\<rparr>\<rparr>)"
  using assms by (simp add: getPublicKey_def getPublicKey_try_def catch_rethrow_def Let_def)

lemma encryptRequest_try_store:
  assumes "pkd_sessionId d \<noteq> []" and "pkd_publicKey d \<noteq> []"
    and "generateEncryptionKey P keyRand = Inr aesKey"
  shows "snd (encryptRequest_try P payload ty (Some (Some d)) keyRand ivRand seed st) =
           st\<lparr>currentSession := Some \<lparr>sess_sessionId = pkd_sessionId d,
                  sess_publicKey = pkd_publicKey d, sess_expiryTime = pkd_expiryTime d\<rparr>,
               aesKeyStore := set_property (aesKeyStore st) (pkd_sessionId d) aesKey\<rparr>"
  using assms
  by (simp add: encryptRequest_try_def getPublicKey_ok Let_def split: sum.split)

lemma encryptRequest_try_result:
  assumes "pkd_sessionId d \<noteq> []" and "pkd_publicKey d \<noteq> []"
  shows "fst (encryptRequest_try P payload ty (Some (Some d)) keyRand ivRand seed st) =
           (case generateEncryptionKey P keyRand of
              Inl e \<Rightarrow> Inl e
            | Inr aesKey \<Rightarrow>
           (case encryptPayload P payload (Some aesKey) keyRand ivRand of
              Inl e \<Rightarrow> Inl e
            | Inr enc \<Rightarrow>
                (case importRSAPublicKeyFromBase64 P (pkd_publicKey d) of
                   Inl e \<Rightarrow> Inl e
                 | Inr rsaPublicKey \<Rightarrow>
                     (case encryptWithRSA P aesKey rsaPublicKey seed of
                        Inl e \<Rightarrow> Inl e
                      | Inr encryptedKey \<Rightarrow>
                          Inr \<lparr>req_sessionId = pkd_sessionId d,
                               req_encryptedData = encryptedData enc,
                               req_encryptedKey = encryptedKey,
                               req_payloadType = ty\<rparr>))))"
  using assms
  by (simp add: encryptRequest_try_def getPublicKey_ok Let_def split: sum.split)

lemma encryptWithRSA_eq:
  "encryptWithRSA P data publicKey seed =
     (case RSA_OAEP_encrypt P publicKey seed (utf8_encode data) of
        None \<Rightarrow> Inl (Error (js ''Failed to encrypt with RSA''))
      | Some c \<Rightarrow>
          if length c \<le> argument_limit P then Inr (base64_encode c)
          else Inl (Error (js ''Failed to encrypt with RSA'')))"
  by (simp add: encryptWithRSA_def catch_rethrow_def btoa_bytes_eq Let_def
      split: option.split)

lemma encryptRequest_success:
  assumes sid: "pkd_sessionId d \<noteq> []" and pk: "pkd_publicKey d \<noteq> []"
    and gen: "32 \<le> argument_limit P"
    and str: "JSON_stringify P payload \<noteq> JsonThrows"
    and size: "length (combined_bytes P (map keyRand [0..<32]) ivRand
                 (utf8_encode (case JSON_stringify P payload of JsonText t \<Rightarrow> t | _ \<Rightarrow> [])))
               \<le> argument_limit P"
    and imp: "importRSAPublicKeyFromBase64 P (pkd_publicKey d) = Inr rsaPublicKey"
    and rsa: "RSA_OAEP_encrypt P rsaPublicKey seed
                (utf8_encode (base64_encode (map keyRand [0..<32]))) = Some wrapped"
    and wrapped: "length wrapped \<le> argument_limit P"
  shows "fst (encryptRequest P payload ty (Some (Some d)) keyRand ivRand seed st) =
           Inr \<lparr>req_sessionId = pkd_sessionId d,
                req_encryptedData =
                  base64_encode (combined_bytes P (map keyRand [0..<32]) ivRand
                    (utf8_encode (case JSON_stringify P payload of JsonText t \<Rightarrow> t | _ \<Rightarrow> []))),
                req_encryptedKey = base64_encode wrapped,
                req_payloadType = ty\<rparr>"
proof -
  have key: "generateEncryptionKey P keyRand = Inr (base64_encode (map keyRand [0..<32]))"
    using gen by (simp add: generateEncryptionKey_eq)
  have enc: "encryptPayload P payload (Some (base64_encode (map keyRand [0..<32]))) keyRand ivRand =
           Inr \<lparr>encryptedData =
                  base64_encode (combined_bytes P (map keyRand [0..<32]) ivRand
                    (utf8_encode (case JSON_stringify P payload of JsonText t \<Rightarrow> t | _ \<Rightarrow> []))),
                encryptionKey = base64_encode (map keyRand [0..<32])\<rparr>"
    using size by (simp add: encryptPayload_key_used [OF importKey_generated str])
  show ?thesis
    by (simp add: encryptRequest_def encryptRequest_try_result [OF sid pk] key enc imp
        encryptWithRSA_eq rsa wrapped catch_rethrow_def)
qed

lemma encryptAESKey_base64:
  "encryptAESKey P (base64_encode raw) (base64_encode der) seed =
     (case importKey_spki P SHA_256 der of
        None \<Rightarrow> Inl (Error (js ''Failed to encrypt AES key with RSA''))
      | Some k \<Rightarrow>
          (case RSA_OAEP_encrypt P k seed raw of
             None \<Rightarrow> Inl (Error (js ''Failed to encrypt AES key with RSA''))
           | Some c \<Rightarrow>
               if length c \<le> argument_limit P then Inr (base64_encode c)
               else Inl (Error (js ''Failed to encrypt AES key with RSA''))))"
  by (simp add: encryptAESKey_def encryptWithPublicKey_def importPublicKey_base64 atob_encode
      charCodes_fromCharCode btoa_bytes_eq catch_rethrow_def split: option.split)

lemma test_import_rsa:
  "importRSAPublicKeyFromBase64 test_platform (base64_encode [1, 2, 3]) = Inr [1, 2, 3]"
  by (simp add: importRSAPublicKeyFromBase64_base64 test_platform_def)

lemma test_combined_bytes:
  "combined_bytes test_platform key (\<lambda>i. c) data
     = replicate 12 c @ data @ test_tag key (replicate 12 c) tagLength"
  by (simp add: combined_bytes_def getRandomValues_const ivLength_def test_platform_def)

lemma test_generateEncryptionKey:
  "generateEncryptionKey test_platform (\<lambda>i. c) = Inr (base64_encode (replicate 32 c))"
  by (simp add: generateEncryptionKey_eq test_limit map_replicate_const)

lemma test_encryptRequest:
  "fst (encryptRequest test_platform True ty key_reply (\<lambda>i. a) (\<lambda>i. b) seed st)
       = Inr \<lparr>req_sessionId = js ''s1'',
              req_encryptedData =
                base64_encode (replicate 12 b @ utf8_encode (js ''true'')
                  @ test_tag (replicate 32 a) (replicate 12 b) tagLength),
              req_encryptedKey = base64_encode (utf8_encode (base64_encode (replicate 32 a))),
              req_payloadType = ty\<rparr>"
proof -
  have sid: "pkd_sessionId key_data \<noteq> []" by (simp add: js_def)
  have pk: "pkd_publicKey key_data \<noteq> []" by (simp add: base64_encode_nonempty)
  have gen: "32 \<le> argument_limit test_platform" by (simp add: test_limit)
  have str: "JSON_stringify test_platform True \<noteq> JsonThrows" by (simp add: test_platform_def)
  have t: "(case JSON_stringify test_platform True of JsonText t \<Rightarrow> t | _ \<Rightarrow> []) = js ''true''"
    by (simp add: test_platform_def)
  have k: "map (\<lambda>i. a) [0..<32] = replicate 32 a" by (simp add: map_replicate_const)
  have size: "length (combined_bytes test_platform (map (\<lambda>i. a) [0..<32]) (\<lambda>i. b)
                 (utf8_encode (case JSON_stringify test_platform True of JsonText t \<Rightarrow> t | _ \<Rightarrow> [])))
               \<le> argument_limit test_platform"
    unfolding t by (simp add: test_combined_bytes length_test_tag test_limit js_def tagLength_def)
  have imp: "importRSAPublicKeyFromBase64 test_platform (pkd_publicKey key_data) = Inr [1, 2, 3]"
    by (simp add: test_import_rsa)
  have rsa: "RSA_OAEP_encrypt test_platform [1, 2, 3] seed
               (utf8_encode (base64_encode (map (\<lambda>i. a) [0..<32])))
               = Some (utf8_encode (base64_encode (map (\<lambda>i. a) [0..<32])))"
    by (simp add: test_platform_def)
  have wrapped: "length (utf8_encode (base64_encode (map (\<lambda>i. a) [0..<32])))
                   \<le> argument_limit test_platform"
    by (simp add: utf8_encode_base64 charCodes_def length_base64_encode test_limit)
  show ?thesis
    using encryptRequest_success [OF sid pk gen str size imp rsa wrapped, of ty st]
    unfolding t k by (simp add: test_combined_bytes)
qed








section \<open>The claims\<close>




text \<open>
  C7 (format contract). For every payload with a JSON text and every key that decodes
  to 32 bytes, an envelope that \<open>encryptPayload\<close> returns decodes to the IV followed by
  what AES-GCM returned: the IV is the \<open>ivLength\<close> bytes that \<open>getRandomValues\<close> filled,
  12 bytes, the first 12 of the envelope; 16 bytes (the tag) follow the bytes of the
  plaintext; and the length is 12 plus the UTF-8 length of the JSON text plus 16.
  \<open>encryptPayload\<close> returns an envelope when these bytes are no more than the engine
  takes as arguments of one call. A key that \<open>generateEncryptionKey\<close> returns is base64
  of 44 characters that decodes to the \<open>keyLength\<close> bits that \<open>generateKey\<close> drew, 32
  bytes, and it returns one when the engine takes 32 arguments in a call. The platform
  is taken to return a ciphertext of the plaintext's length followed by the tag.
\<close>

theorem envelope_format:
  assumes tag: "\<And>key iv t data. length (AES_GCM_encrypt P key iv t data) = length data + t div 8"
    and str: "JSON_stringify P payload = JsonText t"
    and key: "base64_decode key = Some raw"
    and raw: "length raw = 32"
  shows "(\<forall>r. encryptPayload P payload (Some key) keyRand ivRand = Inr r \<longrightarrow>
            (\<exists>iv ct. iv = getRandomValues ivRand ivLength
                \<and> ct = AES_GCM_encrypt P raw iv 128 (utf8_encode t)
                \<and> base64_decode (encryptedData r) = Some (iv @ ct)
                \<and> length iv = 12
                \<and> take 12 (iv @ ct) = iv
                \<and> length (drop (length (utf8_encode t)) ct) = 16
                \<and> length (iv @ ct) = 12 + length (utf8_encode t) + 16))
       \<and> (length (utf8_encode t) + 28 \<le> argument_limit P \<longrightarrow>
            (\<exists>r. encryptPayload P payload (Some key) keyRand ivRand = Inr r))
       \<and> (\<forall>k. generateEncryptionKey P keyRand = Inr k \<longrightarrow>
            (\<exists>generated. generateKey keyRand keyLength = Inr generated
                \<and> base64_decode k = Some generated
                \<and> length generated = 32
                \<and> length k = 44))
       \<and> (32 \<le> argument_limit P \<longrightarrow> (\<exists>k. generateEncryptionKey P keyRand = Inr k))"
proof (intro conjI allI impI)
  have imp: "importKey key = Inr raw"
    using key raw by (intro importKey_decoded) simp_all
  let ?iv = "getRandomValues ivRand ivLength"
  let ?ct = "AES_GCM_encrypt P raw ?iv 128 (utf8_encode t)"
  have c: "combined_bytes P raw ivRand (utf8_encode t) = ?iv @ ?ct"
    by (simp add: combined_bytes_def tagLength_def)
  have enc: "encryptPayload P payload (Some key) keyRand ivRand =
           (if length (?iv @ ?ct) \<le> argument_limit P
            then Inr \<lparr>encryptedData = base64_encode (?iv @ ?ct), encryptionKey = key\<rparr>
            else Inl (Error (js ''Failed to encrypt payload'')))"
    using encryptPayload_with_key [OF imp str, of keyRand ivRand] unfolding c .
  have iv: "length ?iv = 12" by (simp add: length_getRandomValues ivLength_def)
  have ct: "length ?ct = length (utf8_encode t) + 16" by (simp add: tag)
  {
    fix r assume r: "encryptPayload P payload (Some key) keyRand ivRand = Inr r"
    have "length (?iv @ ?ct) \<le> argument_limit P"
    proof (rule ccontr)
      assume "\<not> length (?iv @ ?ct) \<le> argument_limit P"
      then show False using enc r by (simp del: length_append)
    qed
    then have "r = \<lparr>encryptedData = base64_encode (?iv @ ?ct), encryptionKey = key\<rparr>"
      using enc r by (simp del: length_append)
    then have d: "base64_decode (encryptedData r) = Some (?iv @ ?ct)"
      by (simp add: base64_decode_encode)
    show "\<exists>iv ct. iv = getRandomValues ivRand ivLength
                \<and> ct = AES_GCM_encrypt P raw iv 128 (utf8_encode t)
                \<and> base64_decode (encryptedData r) = Some (iv @ ct)
                \<and> length iv = 12
                \<and> take 12 (iv @ ct) = iv
                \<and> length (drop (length (utf8_encode t)) ct) = 16
                \<and> length (iv @ ct) = 12 + length (utf8_encode t) + 16"
      using d iv ct by (intro exI [of _ ?iv] exI [of _ ?ct]) simp
  }
  {
    assume "length (utf8_encode t) + 28 \<le> argument_limit P"
    then have "length (?iv @ ?ct) \<le> argument_limit P" using iv ct by simp
    then have "encryptPayload P payload (Some key) keyRand ivRand =
                 Inr \<lparr>encryptedData = base64_encode (?iv @ ?ct), encryptionKey = key\<rparr>"
      using enc by (simp del: length_append)
    then show "\<exists>r. encryptPayload P payload (Some key) keyRand ivRand = Inr r" by (rule exI)
  }
  {
    fix k assume "generateEncryptionKey P keyRand = Inr k"
    then have k: "k = base64_encode (map keyRand [0..<32])" by (rule generateEncryptionKey_Inr)
    show "\<exists>generated. generateKey keyRand keyLength = Inr generated
                \<and> base64_decode k = Some generated
                \<and> length generated = 32
                \<and> length k = 44"
      unfolding k
      by (intro exI [of _ "map keyRand [0..<32]"])
         (simp add: generateKey_keyLength base64_decode_encode length_base64_encode)
  }
  {
    assume "32 \<le> argument_limit P"
    then show "\<exists>k. generateEncryptionKey P keyRand = Inr k"
      by (simp add: generateEncryptionKey_eq)
  }
qed

theorem envelope_format_witness:
  "(\<exists>r iv ct. encryptPayload test_platform False (Some (base64_encode (replicate 32 9)))
                (\<lambda>i. 5) (\<lambda>i. 3) = Inr r
            \<and> iv = replicate 12 3
            \<and> ct = utf8_encode (js ''false'') @ test_tag (replicate 32 9) (replicate 12 3) 128
            \<and> base64_decode (encryptedData r) = Some (iv @ ct)
            \<and> length (iv @ ct) = 33)
   \<and> (\<exists>k. generateEncryptionKey test_platform (\<lambda>i. 5) = Inr k
          \<and> base64_decode k = Some (replicate 32 5)
          \<and> length k = 44)"
proof -
  have str: "JSON_stringify test_platform False = JsonText (js ''false'')"
    by (simp add: test_platform_def)
  have key: "base64_decode (base64_encode (replicate 32 (9::byte))) = Some (replicate 32 9)"
    by (rule base64_decode_encode)
  have raw: "length (replicate 32 (9::byte)) = 32" by simp
  note all = envelope_format [OF test_tag_length str key raw, of "\<lambda>i. 5" "\<lambda>i. 3"]
  have size: "length (utf8_encode (js ''false'')) + 28 \<le> argument_limit test_platform"
    by (simp add: test_limit js_def)
  have args: "32 \<le> argument_limit test_platform" by (simp add: test_limit)
  from all [THEN conjunct2, THEN conjunct1, THEN mp, OF size]
  obtain r where r: "encryptPayload test_platform False (Some (base64_encode (replicate 32 9)))
                (\<lambda>i. 5) (\<lambda>i. 3) = Inr r" ..
  from all [THEN conjunct1, THEN spec, THEN mp, OF r]
  obtain iv ct where f: "iv = getRandomValues (\<lambda>i. 3) ivLength"
      "ct = AES_GCM_encrypt test_platform (replicate 32 9) iv 128 (utf8_encode (js ''false''))"
      "base64_decode (encryptedData r) = Some (iv @ ct)"
      "length (iv @ ct) = 12 + length (utf8_encode (js ''false'')) + 16"
    by (elim exE conjE)
  have iv: "iv = replicate 12 3" using f(1) by (simp add: getRandomValues_const ivLength_def)
  have ct: "ct = utf8_encode (js ''false'') @ test_tag (replicate 32 9) (replicate 12 3) 128"
    using f(2) unfolding iv by (simp add: test_platform_def)
  have len: "length (iv @ ct) = 33" using f(4) by (simp add: js_def)
  have first: "\<exists>r iv ct. encryptPayload test_platform False (Some (base64_encode (replicate 32 9)))
                (\<lambda>i. 5) (\<lambda>i. 3) = Inr r
            \<and> iv = replicate 12 3
            \<and> ct = utf8_encode (js ''false'') @ test_tag (replicate 32 9) (replicate 12 3) 128
            \<and> base64_decode (encryptedData r) = Some (iv @ ct)
            \<and> length (iv @ ct) = 33"
    using r iv ct f(3) len by (intro exI [of _ r] exI [of _ iv] exI [of _ ct] conjI)
  from all [THEN conjunct2, THEN conjunct2, THEN conjunct2, THEN mp, OF args]
  obtain k where k: "generateEncryptionKey test_platform (\<lambda>i. 5) = Inr k" ..
  from all [THEN conjunct2, THEN conjunct2, THEN conjunct1, THEN spec, THEN mp, OF k]
  obtain generated where g: "generateKey (\<lambda>i. 5) keyLength = Inr generated"
      "base64_decode k = Some generated" "length k = 44"
    by (elim exE conjE)
  have "generated = replicate 32 5"
    using g(1) by (simp add: generateKey_keyLength map_replicate_const)
  then have second: "\<exists>k. generateEncryptionKey test_platform (\<lambda>i. 5) = Inr k
          \<and> base64_decode k = Some (replicate 32 5) \<and> length k = 44"
    using k g(2,3) by (intro exI [of _ k]) simp
  from first second show ?thesis by (rule conjI)
qed



text \<open>
  C2 (key consumption), as the code has it: \<open>decryptResponse\<close> deletes the session's
  key only after \<open>decryptPayload\<close> has returned. When the call fails the module state
  is left exactly as it was, so the entry is still there; when it succeeds the state
  differs only in that the entry is gone.
\<close>

theorem decryptResponse_removes_key_on_success_only:
  "(\<forall>e. fst (decryptResponse P env st) = Inl e \<longrightarrow> snd (decryptResponse P env st) = st)
   \<and> (\<forall>v. fst (decryptResponse P env st) = Inr v \<longrightarrow>
         snd (decryptResponse P env st) =
           st\<lparr>aesKeyStore := (aesKeyStore st)(resp_sessionId env := None)\<rparr>)"
  using decryptResponse_failure(2) [of P env st] decryptResponse_success(1) [of P env st]
  by (intro conjI allI impI)

theorem decryptResponse_removes_key_on_success_only_witness:
  "fst (decryptResponse test_platform envelope_bad_tag store_with_key)
   = Inl (Error (js ''Failed to decrypt response payload''))
   \<and> snd (decryptResponse test_platform envelope_bad_tag store_with_key)
   = store_with_key
   \<and> fst (decryptResponse test_platform envelope_true store_with_key)
   = Inr True
   \<and> aesKeyStore (snd (decryptResponse test_platform envelope_true store_with_key))
     (js ''s1'') = None"
proof -
  have f: "fst (decryptResponse test_platform envelope_bad_tag store_with_key)
             = Inl (Error (js ''Failed to decrypt response payload''))"
    by (simp add: test_decryptResponse_bad_tag)
  have g: "fst (decryptResponse test_platform envelope_true store_with_key) = Inr True"
    by (simp add: test_decryptResponse_valid)
  have kept: "snd (decryptResponse test_platform envelope_bad_tag store_with_key) = store_with_key"
    using decryptResponse_removes_key_on_success_only [of test_platform envelope_bad_tag store_with_key,
        THEN conjunct1, THEN spec, THEN mp, OF f] .
  have "snd (decryptResponse test_platform envelope_true store_with_key)
          = store_with_key\<lparr>aesKeyStore := (aesKeyStore store_with_key)(resp_sessionId envelope_true := None)\<rparr>"
    using decryptResponse_removes_key_on_success_only [of test_platform envelope_true store_with_key,
        THEN conjunct2, THEN spec, THEN mp, OF g] .
  then have gone: "aesKeyStore (snd (decryptResponse test_platform envelope_true store_with_key)) (js ''s1'') = None"
    by simp
  from f kept g gone show ?thesis by (intro conjI)
qed

text \<open>
  C2 as stated fails: with a key on file for session \<open>s1\<close> and an envelope whose tag
  does not verify, \<open>decryptResponse\<close> fails and the key is still on file.
\<close>

theorem decryptResponse_consumes_key_on_failure_counterexample:
  "fst (decryptResponse test_platform envelope_bad_tag store_with_key)
   = Inl (Error (js ''Failed to decrypt response payload''))
   \<and> aesKeyStore (snd (decryptResponse test_platform envelope_bad_tag store_with_key))
     (js ''s1'') = Some (base64_encode (replicate 32 1))"
  by (simp add: test_decryptResponse_bad_tag)

text \<open>
  C3 (failure kinds), as the code has it: every failure of \<open>decryptResponse\<close> reaches
  the caller as \<open>Error "Failed to decrypt response payload"\<close>. They are raised inside
  the \<open>try\<close> and replaced by it: the lookup's own error (\<open>noKeyError\<close>), for a session
  id that names neither a key on file nor a member of \<open>Object.prototype\<close>; the error
  of \<open>decryptPayload\<close> for a session id with no key on file that names a member of
  \<open>Object.prototype\<close>, where the lookup gives the inherited member and decoding it as
  a key fails; and the errors of the symmetric decryption under a key on file (an
  \<open>OperationError\<close> for a tag that does not verify, a \<open>SyntaxError\<close> for text that is
  not JSON).
\<close>

theorem decryptResponse_errors_are_generic:
  "(\<forall>e. fst (decryptResponse P env st) = Inl e \<longrightarrow>
          e = Error (js ''Failed to decrypt response payload''))
   \<and> (aesKeyStore st (resp_sessionId env) = None
        \<and> resp_sessionId env \<notin> set object_prototype_names \<longrightarrow>
          decryptResponse_try P env st = (Inl (noKeyError (resp_sessionId env)), st)
        \<and> decryptResponse P env st = (Inl (Error (js ''Failed to decrypt response payload'')), st))
   \<and> (aesKeyStore st (resp_sessionId env) = None
        \<and> resp_sessionId env \<in> set object_prototype_names \<longrightarrow>
          decryptResponse_try P env st = (Inl (Error (js ''Failed to decrypt payload'')), st)
        \<and> decryptResponse P env st = (Inl (Error (js ''Failed to decrypt response payload'')), st))
   \<and> (\<forall>k err. aesKeyStore st (resp_sessionId env) = Some k \<and> k \<noteq> []
          \<and> decryptPayload_try P (resp_encryptedData env) k = Inl err \<longrightarrow>
          decryptResponse P env st = (Inl (Error (js ''Failed to decrypt response payload'')), st))"
proof (intro conjI allI impI)
  fix e assume "fst (decryptResponse P env st) = Inl e"
  then show "e = Error (js ''Failed to decrypt response payload'')"
    by (rule decryptResponse_failure)
next
  assume a: "aesKeyStore st (resp_sessionId env) = None
        \<and> resp_sessionId env \<notin> set object_prototype_names"
  show "decryptResponse_try P env st = (Inl (noKeyError (resp_sessionId env)), st)"
    by (rule decryptResponse_no_key [OF a [THEN conjunct1] a [THEN conjunct2]])
  show "decryptResponse P env st = (Inl (Error (js ''Failed to decrypt response payload'')), st)"
    by (rule decryptResponse_no_key [OF a [THEN conjunct1] a [THEN conjunct2]])
next
  assume a: "aesKeyStore st (resp_sessionId env) = None
        \<and> resp_sessionId env \<in> set object_prototype_names"
  show "decryptResponse_try P env st = (Inl (Error (js ''Failed to decrypt payload'')), st)"
    by (rule decryptResponse_inherited [OF a [THEN conjunct1] a [THEN conjunct2]])
  show "decryptResponse P env st = (Inl (Error (js ''Failed to decrypt response payload'')), st)"
    by (rule decryptResponse_inherited [OF a [THEN conjunct1] a [THEN conjunct2]])
next
  fix k err
  assume a: "aesKeyStore st (resp_sessionId env) = Some k \<and> k \<noteq> []
          \<and> decryptPayload_try P (resp_encryptedData env) k = Inl err"
  then have "decryptPayload P (resp_encryptedData env) k = Inl (Error (js ''Failed to decrypt payload''))"
    by (simp add: decryptPayload_def catch_rethrow_def)
  then show "decryptResponse P env st = (Inl (Error (js ''Failed to decrypt response payload'')), st)"
    using a by (simp add: decryptResponse_with_key)
qed

theorem decryptResponse_errors_are_generic_witness:
  "aesKeyStore empty_store (js ''s1'') = None
   \<and> js ''s1'' \<notin> set object_prototype_names
   \<and> decryptResponse test_platform envelope_bad_tag empty_store
      = (Inl (Error (js ''Failed to decrypt response payload'')), empty_store)
   \<and> js ''toString'' \<in> set object_prototype_names
   \<and> decryptResponse_try test_platform (envelope_bad_tag\<lparr>resp_sessionId := js ''toString''\<rparr>)
        empty_store
      = (Inl (Error (js ''Failed to decrypt payload'')), empty_store)
   \<and> decryptResponse test_platform (envelope_bad_tag\<lparr>resp_sessionId := js ''toString''\<rparr>)
        empty_store
      = (Inl (Error (js ''Failed to decrypt response payload'')), empty_store)
   \<and> decryptPayload_try test_platform (base64_encode (replicate 28 0))
        (base64_encode (replicate 32 1)) = Inl OperationError
   \<and> decryptResponse test_platform envelope_bad_tag store_with_key
      = (Inl (Error (js ''Failed to decrypt response payload'')), store_with_key)"
proof -
  have none: "aesKeyStore empty_store (resp_sessionId envelope_bad_tag) = None
        \<and> resp_sessionId envelope_bad_tag \<notin> set object_prototype_names"
    by (simp add: s1_not_inherited)
  have inh: "aesKeyStore empty_store
          (resp_sessionId (envelope_bad_tag\<lparr>resp_sessionId := js ''toString''\<rparr>)) = None
        \<and> resp_sessionId (envelope_bad_tag\<lparr>resp_sessionId := js ''toString''\<rparr>)
            \<in> set object_prototype_names"
    by (simp add: toString_inherited)
  have ne: "base64_encode (replicate 32 (1::byte)) \<noteq> []"
    using importKey_nonempty [OF importKey_encode32, of "replicate 32 1"] by simp
  have some: "aesKeyStore store_with_key (resp_sessionId envelope_bad_tag) = Some (base64_encode (replicate 32 1))
          \<and> base64_encode (replicate 32 (1::byte)) \<noteq> []
          \<and> decryptPayload_try test_platform (resp_encryptedData envelope_bad_tag)
                (base64_encode (replicate 32 1)) = Inl OperationError"
    using ne test_bad_tag by simp
  have a: "decryptResponse test_platform envelope_bad_tag empty_store
             = (Inl (Error (js ''Failed to decrypt response payload'')), empty_store)"
    using decryptResponse_errors_are_generic [of test_platform envelope_bad_tag empty_store,
        THEN conjunct2, THEN conjunct1, THEN mp, OF none, THEN conjunct2] .
  note i = decryptResponse_errors_are_generic [of test_platform
        "envelope_bad_tag\<lparr>resp_sessionId := js ''toString''\<rparr>" empty_store,
        THEN conjunct2, THEN conjunct2, THEN conjunct1, THEN mp, OF inh]
  have b: "decryptResponse test_platform envelope_bad_tag store_with_key
             = (Inl (Error (js ''Failed to decrypt response payload'')), store_with_key)"
    using decryptResponse_errors_are_generic [of test_platform envelope_bad_tag store_with_key,
        THEN conjunct2, THEN conjunct2, THEN conjunct2, THEN spec, THEN spec, THEN mp, OF some] .
  have n: "aesKeyStore empty_store (js ''s1'') = None" by simp
  from n s1_not_inherited a toString_inherited i [THEN conjunct1] i [THEN conjunct2]
    test_bad_tag b
  show ?thesis by (intro conjI)
qed

text \<open>
  C3 as stated fails: for a session with no key the lookup raises \<open>noKeyError\<close>, and
  what the caller receives is not that error; it is the same error the caller
  receives when the tag of the envelope does not verify.
\<close>

theorem decryptResponse_precise_failure_counterexample:
  "fst (decryptResponse_try test_platform envelope_bad_tag empty_store)
     = Inl (noKeyError (js ''s1''))
   \<and> fst (decryptResponse test_platform envelope_bad_tag empty_store)
     \<noteq> Inl (noKeyError (js ''s1''))
   \<and> decryptPayload_try test_platform (base64_encode (replicate 28 0))
        (base64_encode (replicate 32 1)) = Inl OperationError
   \<and> fst (decryptResponse test_platform envelope_bad_tag store_with_key)
     = fst (decryptResponse test_platform envelope_bad_tag empty_store)"
  by (simp add: decryptResponse_no_key s1_not_inherited test_decryptResponse_bad_tag test_bad_tag
      noKeyError_not_generic [symmetric])

text \<open>
  C4 (decryption failures), as the code has it: for every key and envelope,
  \<open>decryptPayload\<close> fails when the tag does not verify and fails when the tag
  verifies and the decrypted text is not JSON; a payload it returns is the parse of
  plaintext whose tag verified; and every failure, these two included, reaches the
  caller as the one error \<open>Error "Failed to decrypt payload"\<close>.
\<close>

theorem decryptPayload_failures:
  "(\<forall>key combined. importKey base64Key = Inr key
        \<and> base64_decode encryptedBase64 = Some combined
        \<and> AES_GCM_decrypt P key (take 12 combined) 128 (drop 12 combined) = None \<longrightarrow>
      decryptPayload_try P encryptedBase64 base64Key = Inl OperationError
    \<and> decryptPayload P encryptedBase64 base64Key = Inl (Error (js ''Failed to decrypt payload'')))
   \<and> (\<forall>key combined buf. importKey base64Key = Inr key
        \<and> base64_decode encryptedBase64 = Some combined
        \<and> AES_GCM_decrypt P key (take 12 combined) 128 (drop 12 combined) = Some buf
        \<and> JSON_parse P (TextDecoder_decode P buf) = None \<longrightarrow>
      decryptPayload_try P encryptedBase64 base64Key = Inl SyntaxError
    \<and> decryptPayload P encryptedBase64 base64Key = Inl (Error (js ''Failed to decrypt payload'')))
   \<and> (\<forall>v. decryptPayload P encryptedBase64 base64Key = Inr v \<longrightarrow>
        (\<exists>key combined buf. importKey base64Key = Inr key
           \<and> base64_decode encryptedBase64 = Some combined
           \<and> AES_GCM_decrypt P key (take 12 combined) 128 (drop 12 combined) = Some buf
           \<and> JSON_parse P (TextDecoder_decode P buf) = Some v))
   \<and> (\<forall>err. decryptPayload P encryptedBase64 base64Key = Inl err \<longrightarrow>
        err = Error (js ''Failed to decrypt payload''))"
proof (intro conjI allI impI)
  fix key combined
  assume a: "importKey base64Key = Inr key
        \<and> base64_decode encryptedBase64 = Some combined
        \<and> AES_GCM_decrypt P key (take 12 combined) 128 (drop 12 combined) = None"
  then have t: "decryptPayload_try P encryptedBase64 base64Key = Inl OperationError"
    by (simp add: decryptPayload_try_decoded [of base64Key key encryptedBase64 combined]
        ivLength_def tagLength_def)
  then show "decryptPayload_try P encryptedBase64 base64Key = Inl OperationError"
    and "decryptPayload P encryptedBase64 base64Key = Inl (Error (js ''Failed to decrypt payload''))"
    by (simp_all add: decryptPayload_def catch_rethrow_def)
next
  fix key combined buf
  assume a: "importKey base64Key = Inr key
        \<and> base64_decode encryptedBase64 = Some combined
        \<and> AES_GCM_decrypt P key (take 12 combined) 128 (drop 12 combined) = Some buf
        \<and> JSON_parse P (TextDecoder_decode P buf) = None"
  then have t: "decryptPayload_try P encryptedBase64 base64Key = Inl SyntaxError"
    by (simp add: decryptPayload_try_decoded [of base64Key key encryptedBase64 combined]
        ivLength_def tagLength_def)
  then show "decryptPayload_try P encryptedBase64 base64Key = Inl SyntaxError"
    and "decryptPayload P encryptedBase64 base64Key = Inl (Error (js ''Failed to decrypt payload''))"
    by (simp_all add: decryptPayload_def catch_rethrow_def)
next
  fix v assume "decryptPayload P encryptedBase64 base64Key = Inr v"
  then have "decryptPayload_try P encryptedBase64 base64Key = Inr v"
    by (simp add: decryptPayload_Inr_iff)
  then show "\<exists>key combined buf. importKey base64Key = Inr key
           \<and> base64_decode encryptedBase64 = Some combined
           \<and> AES_GCM_decrypt P key (take 12 combined) 128 (drop 12 combined) = Some buf
           \<and> JSON_parse P (TextDecoder_decode P buf) = Some v"
    using decryptPayload_try_Inr [of P encryptedBase64 base64Key v]
    by (simp add: ivLength_def tagLength_def)
next
  fix err assume "decryptPayload P encryptedBase64 base64Key = Inl err"
  then show "err = Error (js ''Failed to decrypt payload'')" by (rule decryptPayload_error)
qed

theorem decryptPayload_failures_witness:
  "importKey (base64_encode (replicate 32 1)) = Inr (replicate 32 1)
   \<and> decryptPayload test_platform (base64_encode (replicate 28 0)) (base64_encode (replicate 32 1))
       = Inl (Error (js ''Failed to decrypt payload''))
   \<and> decryptPayload test_platform (base64_encode (replicate 12 0 @ replicate 16 1))
         (base64_encode (replicate 32 1))
       = Inl (Error (js ''Failed to decrypt payload''))"
proof -
  have key: "importKey (base64_encode (replicate 32 (1::byte))) = Inr (replicate 32 1)"
    by (rule importKey_encode32) simp
  have bad: "importKey (base64_encode (replicate 32 (1::byte))) = Inr (replicate 32 1)
      \<and> base64_decode (base64_encode (replicate 28 (0::byte))) = Some (replicate 28 0)
      \<and> AES_GCM_decrypt test_platform (replicate 32 1) (take 12 (replicate 28 0)) 128
               (drop 12 (replicate 28 0)) = None"
    using key by (simp add: base64_decode_encode test_platform_def test_tag_def)
  have good: "importKey (base64_encode (replicate 32 (1::byte))) = Inr (replicate 32 1)
      \<and> base64_decode (base64_encode (replicate 12 (0::byte) @ replicate 16 1))
          = Some (replicate 12 0 @ replicate 16 1)
      \<and> AES_GCM_decrypt test_platform (replicate 32 1)
                  (take 12 (replicate 12 0 @ replicate 16 1)) 128
                  (drop 12 (replicate 12 0 @ replicate 16 1)) = Some []
      \<and> JSON_parse test_platform (TextDecoder_decode test_platform []) = None"
    using key by (simp add: base64_decode_encode test_platform_def test_tag_def js_def)
  have a: "decryptPayload test_platform (base64_encode (replicate 28 0))
             (base64_encode (replicate 32 1)) = Inl (Error (js ''Failed to decrypt payload''))"
    using decryptPayload_failures [of "base64_encode (replicate 32 1)"
        "base64_encode (replicate 28 0)" test_platform,
        THEN conjunct1, THEN spec, THEN spec, THEN mp, OF bad, THEN conjunct2] .
  have b: "decryptPayload test_platform (base64_encode (replicate 12 0 @ replicate 16 1))
             (base64_encode (replicate 32 1)) = Inl (Error (js ''Failed to decrypt payload''))"
    using decryptPayload_failures [of "base64_encode (replicate 32 1)"
        "base64_encode (replicate 12 0 @ replicate 16 1)" test_platform,
        THEN conjunct2, THEN conjunct1, THEN spec, THEN spec, THEN spec, THEN mp, OF good,
        THEN conjunct2] .
  from key a b show ?thesis by (intro conjI)
qed

text \<open>
  C4 as stated fails: an envelope whose tag does not verify and an envelope whose
  authenticated plaintext is not JSON raise different errors inside \<open>decryptPayload\<close>,
  and the caller receives the same result for both.
\<close>

theorem decryptPayload_distinct_failures_counterexample:
  "decryptPayload_try test_platform (base64_encode (replicate 28 0))
       (base64_encode (replicate 32 1)) = Inl OperationError
   \<and> decryptPayload_try test_platform (base64_encode (replicate 12 0 @ replicate 16 1))
       (base64_encode (replicate 32 1)) = Inl SyntaxError
   \<and> decryptPayload test_platform (base64_encode (replicate 28 0))
       (base64_encode (replicate 32 1))
     = decryptPayload test_platform (base64_encode (replicate 12 0 @ replicate 16 1))
       (base64_encode (replicate 32 1))"
  by (simp add: decryptPayload_def test_bad_tag test_not_json catch_rethrow_def)

text \<open>
  C9 (single use), as the code has it: after a \<open>decryptResponse\<close> that succeeded, the
  session's key is gone, and a second call with the same session id fails with
  \<open>Error "Failed to decrypt response payload"\<close>. Inside the \<open>try\<close>, the lookup raises
  \<open>noKeyError\<close> when the session id names no member of \<open>Object.prototype\<close>; when it
  names one, the lookup gives the inherited member and \<open>decryptPayload\<close> fails to
  decode it as a key.
\<close>

theorem decryptResponse_second_call_fails:
  assumes first: "fst (decryptResponse P env st) = Inr v"
    and same: "resp_sessionId env' = resp_sessionId env"
  shows "aesKeyStore (snd (decryptResponse P env st)) (resp_sessionId env) = None
       \<and> (resp_sessionId env \<notin> set object_prototype_names \<longrightarrow>
            decryptResponse_try P env' (snd (decryptResponse P env st))
              = (Inl (noKeyError (resp_sessionId env)), snd (decryptResponse P env st)))
       \<and> (resp_sessionId env \<in> set object_prototype_names \<longrightarrow>
            decryptResponse_try P env' (snd (decryptResponse P env st))
              = (Inl (Error (js ''Failed to decrypt payload'')), snd (decryptResponse P env st)))
       \<and> decryptResponse P env' (snd (decryptResponse P env st))
           = (Inl (Error (js ''Failed to decrypt response payload'')),
              snd (decryptResponse P env st))"
proof (intro conjI impI)
  have gone: "aesKeyStore (snd (decryptResponse P env st)) (resp_sessionId env') = None"
    by (simp add: decryptResponse_success(1) [OF first] same)
  then show "aesKeyStore (snd (decryptResponse P env st)) (resp_sessionId env) = None"
    by (simp add: same)
  show "decryptResponse P env' (snd (decryptResponse P env st))
           = (Inl (Error (js ''Failed to decrypt response payload'')),
              snd (decryptResponse P env st))"
    using gone by (rule decryptResponse_lookup_fails)
  {
    assume "resp_sessionId env \<notin> set object_prototype_names"
    then have "resp_sessionId env' \<notin> set object_prototype_names" by (simp add: same)
    with gone have "decryptResponse_try P env' (snd (decryptResponse P env st))
              = (Inl (noKeyError (resp_sessionId env')), snd (decryptResponse P env st))"
      by (rule decryptResponse_no_key)
    then show "decryptResponse_try P env' (snd (decryptResponse P env st))
              = (Inl (noKeyError (resp_sessionId env)), snd (decryptResponse P env st))"
      by (simp add: same)
  }
  {
    assume "resp_sessionId env \<in> set object_prototype_names"
    then have "resp_sessionId env' \<in> set object_prototype_names" by (simp add: same)
    with gone show "decryptResponse_try P env' (snd (decryptResponse P env st))
              = (Inl (Error (js ''Failed to decrypt payload'')), snd (decryptResponse P env st))"
      by (rule decryptResponse_inherited)
  }
qed

theorem decryptResponse_second_call_fails_witness:
  "fst (decryptResponse test_platform envelope_true store_with_key) = Inr True
   \<and> js ''s1'' \<notin> set object_prototype_names
   \<and> decryptResponse_try test_platform envelope_true empty_store
   = (Inl (noKeyError (js ''s1'')), empty_store)
   \<and> decryptResponse test_platform envelope_true empty_store
   = (Inl (Error (js ''Failed to decrypt response payload'')), empty_store)
   \<and> fst (decryptResponse test_platform (envelope_true\<lparr>resp_sessionId := js ''toString''\<rparr>)
        \<lparr>currentSession = None,
         aesKeyStore = [js ''toString'' \<mapsto> base64_encode (replicate 32 1)]\<rparr>) = Inr True
   \<and> js ''toString'' \<in> set object_prototype_names
   \<and> decryptResponse_try test_platform (envelope_true\<lparr>resp_sessionId := js ''toString''\<rparr>)
        empty_store
   = (Inl (Error (js ''Failed to decrypt payload'')), empty_store)
   \<and> decryptResponse test_platform (envelope_true\<lparr>resp_sessionId := js ''toString''\<rparr>)
        empty_store
   = (Inl (Error (js ''Failed to decrypt response payload'')), empty_store)"
proof -
  have g: "fst (decryptResponse test_platform envelope_true store_with_key) = Inr True"
    by (simp add: test_decryptResponse_valid)
  have s: "snd (decryptResponse test_platform envelope_true store_with_key) = empty_store"
    by (simp add: test_decryptResponse_valid)
  have n: "resp_sessionId envelope_true \<notin> set object_prototype_names"
    by (simp add: s1_not_inherited)
  note one = decryptResponse_second_call_fails [OF g refl]
  have a: "decryptResponse_try test_platform envelope_true empty_store
             = (Inl (noKeyError (js ''s1'')), empty_store)"
    using one [THEN conjunct2, THEN conjunct1, THEN mp, OF n] unfolding s by simp
  have b: "decryptResponse test_platform envelope_true empty_store
          = (Inl (Error (js ''Failed to decrypt response payload'')), empty_store)"
    using one [THEN conjunct2, THEN conjunct2, THEN conjunct2] unfolding s .
  let ?env = "envelope_true\<lparr>resp_sessionId := js ''toString''\<rparr>"
  let ?st = "\<lparr>currentSession = None,
         aesKeyStore = [js ''toString'' \<mapsto> base64_encode (replicate 32 1)]\<rparr>"
  have v: "decryptResponse test_platform ?env ?st = (Inr True, empty_store)"
    by (rule test_decryptResponse_valid_at)
  have g': "fst (decryptResponse test_platform ?env ?st) = Inr True" by (simp only: v fst_conv)
  have s': "snd (decryptResponse test_platform ?env ?st) = empty_store" by (simp only: v snd_conv)
  have "resp_sessionId ?env = js ''toString''" by simp
  then have i: "resp_sessionId ?env \<in> set object_prototype_names"
    by (simp only: toString_inherited)
  note two = decryptResponse_second_call_fails [OF g' refl]
  have c: "decryptResponse_try test_platform ?env empty_store
             = (Inl (Error (js ''Failed to decrypt payload'')), empty_store)"
    using two [THEN conjunct2, THEN conjunct2, THEN conjunct1, THEN mp, OF i] unfolding s' .
  have d: "decryptResponse test_platform ?env empty_store
          = (Inl (Error (js ''Failed to decrypt response payload'')), empty_store)"
    using two [THEN conjunct2, THEN conjunct2, THEN conjunct2] unfolding s' .
  from g s1_not_inherited a b g' toString_inherited c d show ?thesis by (intro conjI)
qed

text \<open>
  C9 as stated fails in the kind of the failure: the error the second call gives its
  caller is not the lookup's error; it is the error a first call gives for an envelope
  whose tag does not verify.
\<close>

theorem decryptResponse_second_call_error_counterexample:
  "fst (decryptResponse test_platform envelope_true store_with_key)
   = Inr True
   \<and> fst (decryptResponse test_platform envelope_true
     (snd (decryptResponse test_platform envelope_true store_with_key)))
   \<noteq> Inl (noKeyError (js ''s1''))
   \<and> fst (decryptResponse test_platform envelope_true
     (snd (decryptResponse test_platform envelope_true store_with_key)))
   = fst (decryptResponse test_platform envelope_bad_tag store_with_key)"
  by (simp add: test_decryptResponse_valid test_decryptResponse_bad_tag decryptResponse_no_key
      s1_not_inherited noKeyError_not_generic [symmetric])

text \<open>
  C5 (registering a key), as the code has it: the key store is a table, so it holds at
  most one key per session id, and \<open>encryptRequest\<close>, once it has generated the key,
  stores it under the session id the server issued whatever the table held there: for
  every session id but \<open>__proto__\<close> the table afterwards is the table before with
  that one entry set. Under \<open>__proto__\<close> the assignment stores nothing in a table
  with no own entry of that name. In every case the call's outcome is the one it has
  when the table held no entry for the id.
\<close>

theorem encryptRequest_replaces_entry:
  assumes sid: "pkd_sessionId d \<noteq> []" and pk: "pkd_publicKey d \<noteq> []"
    and gen: "generateEncryptionKey P keyRand = Inr aesKey"
  shows "(pkd_sessionId d \<noteq> js ''__proto__'' \<longrightarrow>
            aesKeyStore (snd (encryptRequest P payload ty (Some (Some d)) keyRand ivRand seed st))
              = (aesKeyStore st)(pkd_sessionId d \<mapsto> aesKey))
       \<and> (pkd_sessionId d = js ''__proto__'' \<and> aesKeyStore st (js ''__proto__'') = None \<longrightarrow>
            aesKeyStore (snd (encryptRequest P payload ty (Some (Some d)) keyRand ivRand seed st))
              = aesKeyStore st)
       \<and> fst (encryptRequest P payload ty (Some (Some d)) keyRand ivRand seed st)
           = fst (encryptRequest P payload ty (Some (Some d)) keyRand ivRand seed
                   (st\<lparr>aesKeyStore := (aesKeyStore st)(pkd_sessionId d := None)\<rparr>))"
proof (intro conjI impI)
  have store: "aesKeyStore (snd (encryptRequest P payload ty (Some (Some d)) keyRand ivRand seed st))
                 = set_property (aesKeyStore st) (pkd_sessionId d) aesKey"
    by (simp add: encryptRequest_def encryptRequest_try_store [OF sid pk gen])
  show "aesKeyStore (snd (encryptRequest P payload ty (Some (Some d)) keyRand ivRand seed st))
              = (aesKeyStore st)(pkd_sessionId d \<mapsto> aesKey)"
    if "pkd_sessionId d \<noteq> js ''__proto__''"
    using that by (simp add: store set_property_def)
  show "aesKeyStore (snd (encryptRequest P payload ty (Some (Some d)) keyRand ivRand seed st))
              = aesKeyStore st"
    if "pkd_sessionId d = js ''__proto__'' \<and> aesKeyStore st (js ''__proto__'') = None"
    using that by (simp add: store set_property_def)
  show "fst (encryptRequest P payload ty (Some (Some d)) keyRand ivRand seed st)
           = fst (encryptRequest P payload ty (Some (Some d)) keyRand ivRand seed
                   (st\<lparr>aesKeyStore := (aesKeyStore st)(pkd_sessionId d := None)\<rparr>))"
    by (simp add: encryptRequest_def encryptRequest_try_result [OF sid pk])
qed

theorem encryptRequest_replaces_entry_witness:
  "generateEncryptionKey test_platform (\<lambda>i. 2) = Inr (base64_encode (replicate 32 2))
   \<and> js ''s1'' \<noteq> js ''__proto__''
   \<and> aesKeyStore (snd (encryptRequest test_platform True None key_reply
        (\<lambda>i. 2) (\<lambda>i. 0) [] store_with_key))
     = [js ''s1'' \<mapsto> base64_encode (replicate 32 2)]
   \<and> aesKeyStore store_with_key (js ''__proto__'') = None
   \<and> aesKeyStore (snd (encryptRequest test_platform True None
        (Some (Some (key_data\<lparr>pkd_sessionId := js ''__proto__''\<rparr>)))
        (\<lambda>i. 2) (\<lambda>i. 0) [] store_with_key))
     = [js ''s1'' \<mapsto> base64_encode (replicate 32 1)]"
proof -
  have sid: "pkd_sessionId key_data \<noteq> []" by (simp add: js_def)
  have pk: "pkd_publicKey key_data \<noteq> []" by (simp add: base64_encode_nonempty)
  have gen: "generateEncryptionKey test_platform (\<lambda>i. 2) = Inr (base64_encode (replicate 32 2))"
    by (rule test_generateEncryptionKey)
  have other: "js ''s1'' \<noteq> js ''__proto__''" by (simp add: js_def)
  have other': "pkd_sessionId key_data \<noteq> js ''__proto__''" by (simp add: js_def)
  have a: "aesKeyStore (snd (encryptRequest test_platform True None key_reply
        (\<lambda>i. 2) (\<lambda>i. 0) [] store_with_key))
     = [js ''s1'' \<mapsto> base64_encode (replicate 32 2)]"
    using encryptRequest_replaces_entry [OF sid pk gen, THEN conjunct1, THEN mp, OF other',
        of True None "\<lambda>i. 0" "[]" store_with_key]
    by simp
  let ?d = "key_data\<lparr>pkd_sessionId := js ''__proto__''\<rparr>"
  have sid': "pkd_sessionId ?d \<noteq> []" by (simp add: js_def)
  have pk': "pkd_publicKey ?d \<noteq> []" by (simp add: base64_encode_nonempty)
  have none: "aesKeyStore store_with_key (js ''__proto__'') = None" by (simp add: js_def)
  have proto: "pkd_sessionId ?d = js ''__proto__''
      \<and> aesKeyStore store_with_key (js ''__proto__'') = None"
    using none by simp
  have b: "aesKeyStore (snd (encryptRequest test_platform True None (Some (Some ?d))
        (\<lambda>i. 2) (\<lambda>i. 0) [] store_with_key))
     = [js ''s1'' \<mapsto> base64_encode (replicate 32 1)]"
    using encryptRequest_replaces_entry [OF sid' pk' gen, THEN conjunct2, THEN conjunct1,
        THEN mp, OF proto, of True None "\<lambda>i. 0" "[]"]
    by simp
  from gen other a none b show ?thesis by (intro conjI)
qed

text \<open>
  C5 as stated fails: with a key on file for session \<open>s1\<close>, an \<open>encryptRequest\<close> whose
  session is again \<open>s1\<close> succeeds and leaves another key on file for \<open>s1\<close>.
\<close>

theorem encryptRequest_silent_overwrite_counterexample:
  "aesKeyStore store_with_key (js ''s1'')
     = Some (base64_encode (replicate 32 1))
   \<and> fst (encryptRequest test_platform True None key_reply
       (\<lambda>i. 2) (\<lambda>i. 0) [] store_with_key)
     = Inr \<lparr>req_sessionId = js ''s1'',
            req_encryptedData =
              base64_encode (replicate 12 0 @ utf8_encode (js ''true'')
                @ test_tag (replicate 32 2) (replicate 12 0) tagLength),
            req_encryptedKey = base64_encode (utf8_encode (base64_encode (replicate 32 2))),
            req_payloadType = None\<rparr>
   \<and> aesKeyStore (snd (encryptRequest test_platform True None key_reply
       (\<lambda>i. 2) (\<lambda>i. 0) [] store_with_key))
       (js ''s1'')
     = Some (base64_encode (replicate 32 2))
   \<and> base64_encode (replicate 32 2) \<noteq> base64_encode (replicate 32 1)"
proof -
  have sid: "pkd_sessionId key_data \<noteq> []" by (simp add: js_def)
  have pk: "pkd_publicKey key_data \<noteq> []" by (simp add: base64_encode_nonempty)
  have gen: "generateEncryptionKey test_platform (\<lambda>i. 2) = Inr (base64_encode (replicate 32 2))"
    by (rule test_generateEncryptionKey)
  have a: "aesKeyStore store_with_key (js ''s1'') = Some (base64_encode (replicate 32 1))" by simp
  have b: "fst (encryptRequest test_platform True None (Some (Some key_data))
             (\<lambda>i. 2) (\<lambda>i. 0) [] store_with_key)
     = Inr \<lparr>req_sessionId = js ''s1'',
            req_encryptedData =
              base64_encode (replicate 12 0 @ utf8_encode (js ''true'')
                @ test_tag (replicate 32 2) (replicate 12 0) tagLength),
            req_encryptedKey = base64_encode (utf8_encode (base64_encode (replicate 32 2))),
            req_payloadType = None\<rparr>"
    by (rule test_encryptRequest)
  have "snd (encryptRequest test_platform True None (Some (Some key_data))
             (\<lambda>i. 2) (\<lambda>i. 0) [] store_with_key)
          = store_with_key\<lparr>currentSession := Some \<lparr>sess_sessionId = pkd_sessionId key_data,
                  sess_publicKey = pkd_publicKey key_data, sess_expiryTime = pkd_expiryTime key_data\<rparr>,
               aesKeyStore := set_property (aesKeyStore store_with_key) (pkd_sessionId key_data)
                  (base64_encode (replicate 32 2))\<rparr>"
    unfolding encryptRequest_def snd_apfst by (rule encryptRequest_try_store [OF sid pk gen])
  then have c: "aesKeyStore (snd (encryptRequest test_platform True None (Some (Some key_data))
             (\<lambda>i. 2) (\<lambda>i. 0) [] store_with_key)) (js ''s1'')
          = Some (base64_encode (replicate 32 2))"
    by (simp add: set_property_def)
  have "replicate 32 (2::byte) \<noteq> replicate 32 1" by simp
  then have d: "base64_encode (replicate 32 (2::byte)) \<noteq> base64_encode (replicate 32 1)"
    using base64_encode_inj by blast
  from a b c d show ?thesis by (intro conjI)
qed

text \<open>
  C8 (PEM-wrapped keys), as the code has it. \<open>importPublicKey\<close> removes the PEM header,
  the PEM footer and all white space: for a key text \<open>raw\<close> without \<open>-\<close> and a \<open>body\<close>
  that is \<open>raw\<close> up to white space, importing \<open>body\<close> between the PEM delimiters gives
  what importing \<open>raw\<close> gives. \<open>importRSAPublicKeyFromBase64\<close>, the import of
  \<open>encryptRequest\<close>, only trims: it fails on every text between the PEM delimiters.
\<close>

theorem import_pem_wrapped_key:
  assumes raw: "45 \<notin> set raw"
    and body: "remove_whitespace body = remove_whitespace raw"
  shows "importPublicKey P (pemHeader @ body @ pemFooter) = importPublicKey P raw
       \<and> importRSAPublicKeyFromBase64 P (pemHeader @ body @ pemFooter)
           = Inl (Error (js ''Failed to import RSA public key''))"
proof
  have "45 \<notin> set body" using raw body by (rule whitespace_body_no_dash)
  then show "importPublicKey P (pemHeader @ body @ pemFooter) = importPublicKey P raw"
    by (intro importPublicKey_contents) (simp add: pem_contents raw_contents raw body)
  show "importRSAPublicKeyFromBase64 P (pemHeader @ body @ pemFooter)
           = Inl (Error (js ''Failed to import RSA public key''))"
    by (rule importRSAPublicKeyFromBase64_pem)
qed

theorem import_pem_wrapped_key_witness:
  "45 \<notin> set (base64_encode [1, 2, 3])
   \<and> importPublicKey test_platform (base64_encode [1, 2, 3]) = Inr [1, 2, 3]
   \<and> importPublicKey test_platform (pemHeader @ ([10] @ base64_encode [1, 2, 3] @ [10]) @ pemFooter)
       = Inr [1, 2, 3]
   \<and> importRSAPublicKeyFromBase64 test_platform
         (pemHeader @ ([10] @ base64_encode [1, 2, 3] @ [10]) @ pemFooter)
       = Inl (Error (js ''Failed to import RSA public key''))"
proof -
  have raw: "45 \<notin> set (base64_encode [1, 2, 3])" using base64_encode_chars(3) by blast
  have ws: "is_js_whitespace 10" by (simp add: is_js_whitespace_def)
  have body: "remove_whitespace ([10] @ base64_encode [1, 2, 3] @ [10])
                = remove_whitespace (base64_encode [1, 2, 3])"
    by (simp add: remove_whitespace_def ws)
  have direct: "importPublicKey test_platform (base64_encode [1, 2, 3]) = Inr [1, 2, 3]"
    by (simp add: importPublicKey_base64 test_platform_def)
  note both = import_pem_wrapped_key [OF raw body, of test_platform]
  have pem: "importPublicKey test_platform
               (pemHeader @ ([10] @ base64_encode [1, 2, 3] @ [10]) @ pemFooter) = Inr [1, 2, 3]"
    using both [THEN conjunct1] direct by (rule trans)
  from raw direct pem both [THEN conjunct2] show ?thesis by (intro conjI)
qed

text \<open>
  C8 as stated fails for \<open>importRSAPublicKeyFromBase64\<close>: the base64 DER of a key
  imports, the same text on a line of its own between the PEM delimiters does not.
\<close>

theorem importRSAPublicKeyFromBase64_pem_counterexample:
  "importRSAPublicKeyFromBase64 test_platform (base64_encode [1, 2, 3]) = Inr [1, 2, 3]
   \<and> importRSAPublicKeyFromBase64 test_platform
         (pemHeader @ ([10] @ base64_encode [1, 2, 3] @ [10]) @ pemFooter)
       = Inl (Error (js ''Failed to import RSA public key''))"
proof
  show "importRSAPublicKeyFromBase64 test_platform (base64_encode [1, 2, 3]) = Inr [1, 2, 3]"
    by (simp add: importRSAPublicKeyFromBase64_base64 test_platform_def)
  show "importRSAPublicKeyFromBase64 test_platform
         (pemHeader @ ([10] @ base64_encode [1, 2, 3] @ [10]) @ pemFooter)
       = Inl (Error (js ''Failed to import RSA public key''))"
    by (rule importRSAPublicKeyFromBase64_pem)
qed

text \<open>
  C1 (what RSA wraps). On the test platform RSA returns its plaintext, so the wrapped
  key is base64 of what was handed to RSA. For the key of 32 zero bytes,
  \<open>encryptRequest\<close> hands RSA the UTF-8 bytes of the key's base64 text, 44 bytes,
  while \<open>encryptAESKey\<close> hands it the 32 key bytes.
\<close>

theorem encryptRequest_wraps_key_text:
  "fst (encryptRequest test_platform True None key_reply
       (\<lambda>i. 0) (\<lambda>i. 0) [] empty_store)
     = Inr \<lparr>req_sessionId = js ''s1'',
            req_encryptedData =
              base64_encode (replicate 12 0 @ utf8_encode (js ''true'')
                @ test_tag (replicate 32 0) (replicate 12 0) tagLength),
            req_encryptedKey = base64_encode (utf8_encode (base64_encode (replicate 32 0))),
            req_payloadType = None\<rparr>
   \<and> utf8_encode (base64_encode (replicate 32 0)) = charCodes (base64_encode (replicate 32 0))
   \<and> length (utf8_encode (base64_encode (replicate 32 (0::byte)))) = 44
   \<and> encryptAESKey test_platform (base64_encode (replicate 32 0)) (base64_encode [1, 2, 3]) []
     = Inr (base64_encode (replicate 32 0))"
proof (intro conjI)
  show "fst (encryptRequest test_platform True None key_reply
       (\<lambda>i. 0) (\<lambda>i. 0) [] empty_store)
     = Inr \<lparr>req_sessionId = js ''s1'',
            req_encryptedData =
              base64_encode (replicate 12 0 @ utf8_encode (js ''true'')
                @ test_tag (replicate 32 0) (replicate 12 0) tagLength),
            req_encryptedKey = base64_encode (utf8_encode (base64_encode (replicate 32 0))),
            req_payloadType = None\<rparr>"
    by (rule test_encryptRequest)
  show "utf8_encode (base64_encode (replicate 32 0)) = charCodes (base64_encode (replicate 32 0))"
    by (rule utf8_encode_base64)
  show "length (utf8_encode (base64_encode (replicate 32 (0::byte)))) = 44"
    by (simp add: utf8_encode_base64 charCodes_def length_base64_encode)
  show "encryptAESKey test_platform (base64_encode (replicate 32 0)) (base64_encode [1, 2, 3]) []
     = Inr (base64_encode (replicate 32 0))"
    by (simp add: encryptAESKey_base64 test_platform_def)
qed

end
